theory Spec2Isabelle
  imports Complex_Main "HOL-Library.Sublist"
begin

section \<open>Numbers, dictionaries and outcomes\<close>

text \<open>
  The channel models of \<^verbatim>\<open>jaxley_mech/channels/benison.py\<close> and
  \<^verbatim>\<open>jaxley_mech/channels/chan24.py\<close> compute on floating-point numbers held in
  Python dictionaries. Here a finite float is a \<open>real\<close>, a dictionary is a map from key
  strings to reals, and a dictionary literal is the list of its items in source order.

  Arithmetic on finite values is exact and \<open>exp\<close> is the real exponential: rounding and
  overflow are not modelled. The model and the program agree, up to rounding, wherever no
  floating-point exponential overflows or rounds to exactly \<open>1\<close> and no product
  overflows. The statements on the finiteness of the rates and on the range of the gates
  are therefore made for voltages between \<open>-200\<close> and \<open>200\<close> that lie at least
  \<open>0.001\<close> from the zero of the activation-rate denominator, and the statement on the
  current at the reversal potential for values of magnitude at most \<open>10 ^ 6\<close>.

  Two things can go wrong in the Python and both are outcomes of the model:
  \<^item> \<open>KeyError k\<close>: a subscript \<^verbatim>\<open>d[k]\<close> on a dictionary without the key \<open>k\<close>
    raises;
  \<^item> \<open>NonFinite\<close>: a float division by zero (or a power without a finite value) does not
    raise under \<^verbatim>\<open>jax.numpy\<close>, it yields an infinity or a NaN that the returned value
    then carries. The model stops at the first such operation and does not follow IEEE
    arithmetic on infinities and NaNs further.
  Since only \<open>KeyError\<close> interrupts the Python, every function below performs its
  dictionary reads first, in source order, and its arithmetic afterwards.
\<close>

datatype error = KeyError string | NonFinite

type_synonym 'a result = "error + 'a"

type_synonym dict = "string \<rightharpoonup> real"

definition bindE :: "'a result \<Rightarrow> ('a \<Rightarrow> 'b result) \<Rightarrow> 'b result" where
  "bindE r f = (case r of Inl e \<Rightarrow> Inl e | Inr x \<Rightarrow> f x)"

text \<open>\<^verbatim>\<open>d[k]\<close>\<close>

definition lookup :: "(string \<rightharpoonup> 'a) \<Rightarrow> string \<Rightarrow> 'a result" where
  "lookup d k = (case d k of None \<Rightarrow> Inl (KeyError k) | Some x \<Rightarrow> Inr x)"

text \<open>\<^verbatim>\<open>x / y\<close> on floats\<close>

definition fdiv :: "real \<Rightarrow> real \<Rightarrow> real result" where
  "fdiv x y = (if y = 0 then Inl NonFinite else Inr (x / y))"

text \<open>
  \<^verbatim>\<open>x ** y\<close> on floats: an integral exponent gives the repeated product (its inverse
  when negative, infinite at base zero); otherwise the base must be positive, apart from
  \<open>0 ** y = 0\<close> for \<open>y > 0\<close>; a negative base with a fractional exponent is NaN.
\<close>

definition fpow :: "real \<Rightarrow> real \<Rightarrow> real result" where
  "fpow x y =
     (if y = of_int \<lfloor>y\<rfloor> then
        (if 0 \<le> y then Inr (x ^ nat \<lfloor>y\<rfloor>)
         else if x = 0 then Inl NonFinite
         else Inr (1 / x ^ nat \<lfloor>- y\<rfloor>))
      else if 0 < x then Inr (x powr y)
      else if x = 0 \<and> 0 < y then Inr 0
      else Inl NonFinite)"

text \<open>The keys of a dictionary literal.\<close>

definition keys :: "(string \<times> real) list \<Rightarrow> string set" where
  "keys items = set (map fst items)"

text \<open>
  The state that a step returns can hold a gate that is not finite, and the host passes
  the state on to \<open>compute_current\<close>. The dictionaries of \<open>compute_current\<close> of the gated
  channels therefore hold values of type \<open>fl\<close>: \<open>Fin x\<close> is the finite float \<open>x\<close>,
  \<open>NonFin\<close> an infinity or a NaN. A product or a difference with an operand that is not
  finite is not finite (\<open>inf * 0\<close> and \<open>inf - inf\<close> are NaN), and so is a power of it
  with a positive exponent (\<open>x ** 0\<close> is \<open>1\<close> for every \<open>x\<close>). On finite operands the
  operations are exact.
\<close>

datatype fl = Fin real | NonFin

type_synonym fdict = "string \<rightharpoonup> fl"

definition fin_dict :: "dict \<Rightarrow> fdict" where
  "fin_dict d = (\<lambda>k. map_option Fin (d k))"

fun fl_mul :: "fl \<Rightarrow> fl \<Rightarrow> fl" where
  "fl_mul (Fin x) (Fin y) = Fin (x * y)"
| "fl_mul _ _ = NonFin"

fun fl_sub :: "fl \<Rightarrow> fl \<Rightarrow> fl" where
  "fl_sub (Fin x) (Fin y) = Fin (x - y)"
| "fl_sub _ _ = NonFin"

fun fl_pow :: "fl \<Rightarrow> nat \<Rightarrow> fl" where
  "fl_pow (Fin x) n = Fin (x ^ n)"
| "fl_pow NonFin n = (if n = 0 then Fin 1 else NonFin)"

section \<open>benison.py: Leak\<close>

text \<open>
  In every class \<open>name\<close> stands for \<^verbatim>\<open>self._name\<close>, which the base class
  \<^verbatim>\<open>jaxley.channels.Channel\<close> sets at construction.
\<close>

definition Leak_channel_params :: "string \<Rightarrow> (string \<times> real) list" where
  "Leak_channel_params name = [(name @ ''_gl'', 0.25 / 10 ^ 9), (name @ ''_el'', - 60.0)]"

definition Leak_channel_states :: "string \<Rightarrow> (string \<times> real) list" where
  "Leak_channel_states name = []"

definition Leak_update_states :: "string \<Rightarrow> dict \<Rightarrow> real \<Rightarrow> real \<Rightarrow> dict \<Rightarrow> dict result" where
  "Leak_update_states name u dt voltages params = Inr Map.empty"

definition Leak_compute_current :: "string \<Rightarrow> dict \<Rightarrow> real \<Rightarrow> dict \<Rightarrow> real result" where
  "Leak_compute_current name u voltages params =
     bindE (lookup params (name @ ''_gl'')) (\<lambda>gl.
     bindE (lookup params (name @ ''_el'')) (\<lambda>el.
     let leak_conds = gl * 1000
     in Inr (leak_conds * (voltages - el))))"

definition Leak_init_state :: "string \<Rightarrow> real \<Rightarrow> dict \<Rightarrow> dict result" where
  "Leak_init_state name voltages params = Inr Map.empty"

section \<open>The gate solver of the host library\<close>

text \<open>
  Modelled from the spec: \<^verbatim>\<open>solve_gate_exponential\<close> is imported from
  \<^verbatim>\<open>jaxley.solver_gate\<close> and is not part of the sources. The specification gives it
  as the exponential-Euler update \<open>x_inf + (x - x_inf) * exp (- dt * (alpha + beta))\<close> with
  \<open>x_inf = alpha / (alpha + beta)\<close>, the exact solution of
  \<open>dx/dt = alpha * (1 - x) - beta * x\<close> over one step, non-finite when
  \<open>alpha + beta = 0\<close>.
\<close>

definition solve_gate_exponential :: "real \<Rightarrow> real \<Rightarrow> real \<Rightarrow> real \<Rightarrow> real result" where
  "solve_gate_exponential x dt alpha beta =
     bindE (fdiv alpha (alpha + beta)) (\<lambda>x_inf.
     Inr (x_inf + (x - x_inf) * exp (- dt * (alpha + beta))))"

section \<open>benison.py: Na\<close>

definition Na_channel_params :: "string \<Rightarrow> (string \<times> real) list" where
  "Na_channel_params name = [(name @ ''_gNa'', 150 / 10 ^ 9), (name @ ''_vNa'', 75.0)]"

definition Na_channel_states :: "string \<Rightarrow> (string \<times> real) list" where
  "Na_channel_states name = [(name @ ''_m'', 0.2), (name @ ''_h'', 0.2)]"

definition Na_m_gate :: "real \<Rightarrow> (real \<times> real) result" where
  "Na_m_gate e =
     bindE (fdiv (0.5 * (e + 29)) (1 - exp (- 0.18 * (e + 29)))) (\<lambda>alpha.
     let beta = 6.0 * exp (- (e + 45.0) / 15.0)
     in Inr (alpha, beta))"

definition Na_h_gate :: "real \<Rightarrow> (real \<times> real) result" where
  "Na_h_gate e =
     (let alpha = 0.15 * exp (- (e + 47.0) / 20.0)
      in bindE (fdiv 2.8 (1 + exp (- 0.1 * (e + 20.0)))) (\<lambda>beta.
         Inr (alpha, beta)))"

definition Na_update_states :: "string \<Rightarrow> dict \<Rightarrow> real \<Rightarrow> real \<Rightarrow> dict \<Rightarrow> dict result" where
  "Na_update_states name u dt voltages params =
     bindE (lookup u (name @ ''_m'')) (\<lambda>ms.
     bindE (lookup u (name @ ''_h'')) (\<lambda>hs.
     bindE (Na_m_gate voltages) (\<lambda>(alpha_m, beta_m).
     bindE (solve_gate_exponential ms dt alpha_m beta_m) (\<lambda>m_new.
     bindE (Na_h_gate voltages) (\<lambda>(alpha_h, beta_h).
     bindE (solve_gate_exponential hs dt alpha_h beta_h) (\<lambda>h_new.
     Inr [name @ ''_m'' \<mapsto> m_new, name @ ''_h'' \<mapsto> h_new]))))))"

definition Na_compute_current :: "string \<Rightarrow> fdict \<Rightarrow> fl \<Rightarrow> fdict \<Rightarrow> fl result" where
  "Na_compute_current name u voltages params =
     bindE (lookup u (name @ ''_m'')) (\<lambda>ms.
     bindE (lookup u (name @ ''_h'')) (\<lambda>hs.
     bindE (lookup params (name @ ''_gNa'')) (\<lambda>gNa.
     bindE (lookup params (name @ ''_vNa'')) (\<lambda>vNa.
     let na_conds = fl_mul (fl_mul (fl_mul gNa (fl_pow ms 3)) hs) (Fin 1000);
         current = fl_mul na_conds (fl_sub voltages vNa)
     in Inr current))))"


section \<open>benison.py: Kdr\<close>

definition Kdr_channel_params :: "string \<Rightarrow> (string \<times> real) list" where
  "Kdr_channel_params name = [(name @ ''_gKdr'', 75 / 10 ^ 9), (''vK'', - 85.0)]"

definition Kdr_channel_states :: "string \<Rightarrow> (string \<times> real) list" where
  "Kdr_channel_states name = [(name @ ''_m'', 0.1)]"

definition Kdr_m_gate :: "real \<Rightarrow> (real \<times> real) result" where
  "Kdr_m_gate e =
     bindE (fdiv (0.0065 * (e + 30)) (1 - exp (- 0.3 * e))) (\<lambda>alpha.
     let beta = 0.083 * exp ((e + 15) / 15)
     in Inr (alpha, beta))"

definition Kdr_update_states :: "string \<Rightarrow> dict \<Rightarrow> real \<Rightarrow> real \<Rightarrow> dict \<Rightarrow> dict result" where
  "Kdr_update_states name u dt voltages params =
     bindE (lookup u (name @ ''_m'')) (\<lambda>ms.
     bindE (Kdr_m_gate voltages) (\<lambda>(alpha_m, beta_m).
     bindE (solve_gate_exponential ms dt alpha_m beta_m) (\<lambda>new_m.
     Inr [name @ ''_m'' \<mapsto> new_m])))"

definition Kdr_compute_current :: "string \<Rightarrow> fdict \<Rightarrow> fl \<Rightarrow> fdict \<Rightarrow> fl result" where
  "Kdr_compute_current name u voltages params =
     bindE (lookup u (name @ ''_m'')) (\<lambda>ms.
     bindE (lookup params (name @ ''_gKdr'')) (\<lambda>gKdr.
     bindE (lookup params ''vK'') (\<lambda>vK.
     let kdr_conds = fl_mul (fl_mul gKdr (fl_pow ms 3)) (Fin 1000)
     in Inr (fl_mul kdr_conds (fl_sub voltages vK)))))"


section \<open>benison.py: CaL\<close>

definition CaL_channel_params :: "string \<Rightarrow> (string \<times> real) list" where
  "CaL_channel_params name = [(name @ ''_gCaL'', 2 / 10 ^ 9), (''vCa'', 45.0)]"

definition CaL_channel_states :: "string \<Rightarrow> (string \<times> real) list" where
  "CaL_channel_states name = [(name @ ''_m'', 0.1)]"

definition CaL_m_gate :: "real \<Rightarrow> (real \<times> real) result" where
  "CaL_m_gate e =
     bindE (fdiv (0.061 * (e - 3.0)) (1 - exp (- (e - 3.0) / 12.5))) (\<lambda>alpha.
     let beta = 0.058 * exp (- (e - 10.0) / 15.0)
     in Inr (alpha, beta))"

definition CaL_update_states :: "string \<Rightarrow> dict \<Rightarrow> real \<Rightarrow> real \<Rightarrow> dict \<Rightarrow> dict result" where
  "CaL_update_states name u dt voltages params =
     bindE (lookup u (name @ ''_m'')) (\<lambda>ms.
     bindE (CaL_m_gate voltages) (\<lambda>(alpha_m, beta_m).
     bindE (solve_gate_exponential ms dt alpha_m beta_m) (\<lambda>m_new.
     Inr [name @ ''_m'' \<mapsto> m_new])))"

definition CaL_compute_current :: "string \<Rightarrow> fdict \<Rightarrow> fl \<Rightarrow> fdict \<Rightarrow> fl result" where
  "CaL_compute_current name u voltages params =
     bindE (lookup u (name @ ''_m'')) (\<lambda>ms.
     bindE (lookup params (name @ ''_gCaL'')) (\<lambda>gCaL.
     bindE (lookup params ''vCa'') (\<lambda>vCa.
     let CaL_conds = fl_mul (fl_mul gCaL (fl_pow ms 2)) (Fin 1000);
         current = fl_mul CaL_conds (fl_sub voltages vCa)
     in Inr current)))"


section \<open>benison.py: CaN\<close>

definition CaN_channel_params :: "string \<Rightarrow> (string \<times> real) list" where
  "CaN_channel_params name = [(name @ ''_gCaN'', 1.5 / 10 ^ 9), (''vCa'', 45.0)]"

definition CaN_channel_states :: "string \<Rightarrow> (string \<times> real) list" where
  "CaN_channel_states name = [(name @ ''_m'', 0.2), (name @ ''_h'', 0.2)]"

definition CaN_m_gate :: "real \<Rightarrow> (real \<times> real) result" where
  "CaN_m_gate e =
     bindE (fdiv (0.1 * (e - 20)) (1 - exp (- 0.1 * (e - 20)))) (\<lambda>alpha.
     let beta = 0.4 * exp (- (e + 25.0) / 18.0)
     in Inr (alpha, beta))"

definition CaN_h_gate :: "real \<Rightarrow> (real \<times> real) result" where
  "CaN_h_gate e =
     (let alpha = 0.01 * exp (- (e + 50.0) / 10.0)
      in bindE (fdiv 0.1 (1 + exp (- (e + 17.0) / 17))) (\<lambda>beta.
         Inr (alpha, beta)))"

definition CaN_update_states :: "string \<Rightarrow> dict \<Rightarrow> real \<Rightarrow> real \<Rightarrow> dict \<Rightarrow> dict result" where
  "CaN_update_states name u dt voltages params =
     bindE (lookup u (name @ ''_m'')) (\<lambda>ms.
     bindE (lookup u (name @ ''_h'')) (\<lambda>hs.
     bindE (CaN_m_gate voltages) (\<lambda>(alpha_m, beta_m).
     bindE (solve_gate_exponential ms dt alpha_m beta_m) (\<lambda>m_new.
     bindE (CaN_h_gate voltages) (\<lambda>(alpha_h, beta_h).
     bindE (solve_gate_exponential hs dt alpha_h beta_h) (\<lambda>h_new.
     Inr [name @ ''_m'' \<mapsto> m_new, name @ ''_h'' \<mapsto> h_new]))))))"

definition CaN_compute_current :: "string \<Rightarrow> fdict \<Rightarrow> fl \<Rightarrow> fdict \<Rightarrow> fl result" where
  "CaN_compute_current name u voltages params =
     bindE (lookup u (name @ ''_m'')) (\<lambda>ms.
     bindE (lookup u (name @ ''_h'')) (\<lambda>hs.
     bindE (lookup params (name @ ''_gCaN'')) (\<lambda>gCaN.
     bindE (lookup params ''vCa'') (\<lambda>vCa.
     let CaN_conds = fl_mul (fl_mul (fl_mul gCaN (fl_pow ms 2)) hs) (Fin 1000);
         current = fl_mul CaN_conds (fl_sub voltages vCa)
     in Inr current))))"


section \<open>chan24.py: Phototransduction\<close>

definition Phototransduction_channel_params :: "string \<Rightarrow> (string \<times> real) list" where
  "Phototransduction_channel_params name =
     [(name @ ''_sigma'', 22),
      (name @ ''_gamma'', 10),
      (name @ ''_phi'', 22),
      (name @ ''_eta'', 2000),
      (name @ ''_G_dark'', 20),
      (name @ ''_k'', 0.01),
      (name @ ''_h'', 4),
      (name @ ''_Ca_dark'', 1),
      (name @ ''_beta'', 9),
      (name @ ''_n'', 3),
      (name @ ''_q'', 1.0),
      (name @ ''_S_max'', 30909),
      (name @ ''_K_GC'', 0.5),
      (name @ ''_m'', 4),
      (name @ ''_I_dark'', 20 ^ 3 * 0.01)]"

definition Phototransduction_channel_states :: "string \<Rightarrow> (string \<times> real) list" where
  "Phototransduction_channel_states name =
     [(name @ ''_R'', 0.0),
      (name @ ''_P'', 90.0),
      (name @ ''_G'', 1),
      (name @ ''_S'', 1),
      (name @ ''_C'', 0.336),
      (name @ ''_Stim'', 0.0)]"

definition current_name :: string where
  "current_name = ''iPhoto''"

text \<open>
  \<open>update_states\<close> reads fourteen parameters, then the six state entries and
  \<^verbatim>\<open>states[self.current_name]\<close>. The values read for \<open>q\<close>, \<open>S_max\<close> and \<open>I\<close> are
  assigned again before any use, so the bound names \<open>q_read\<close>, \<open>S_max_read\<close> and
  \<open>I_read\<close> do not occur in the body.
\<close>

definition Phototransduction_update_states ::
    "string \<Rightarrow> dict \<Rightarrow> real \<Rightarrow> real \<Rightarrow> dict \<Rightarrow> dict result" where
  "Phototransduction_update_states name states dt_ms v params =
     bindE (lookup params (name @ ''_gamma'')) (\<lambda>gamma.
     bindE (lookup params (name @ ''_sigma'')) (\<lambda>sigma.
     bindE (lookup params (name @ ''_phi'')) (\<lambda>phi.
     bindE (lookup params (name @ ''_eta'')) (\<lambda>eta.
     bindE (lookup params (name @ ''_q'')) (\<lambda>q_read.
     bindE (lookup params (name @ ''_beta'')) (\<lambda>beta.
     bindE (lookup params (name @ ''_S_max'')) (\<lambda>S_max_read.
     bindE (lookup params (name @ ''_K_GC'')) (\<lambda>K_GC.
     bindE (lookup params (name @ ''_m'')) (\<lambda>m.
     bindE (lookup params (name @ ''_k'')) (\<lambda>k.
     bindE (lookup params (name @ ''_n'')) (\<lambda>n.
     bindE (lookup params (name @ ''_I_dark'')) (\<lambda>I_dark.
     bindE (lookup params (name @ ''_Ca_dark'')) (\<lambda>C_dark.
     bindE (lookup params (name @ ''_G_dark'')) (\<lambda>G_dark.
     bindE (lookup states (name @ ''_Stim'')) (\<lambda>Stim.
     bindE (lookup states (name @ ''_P'')) (\<lambda>P.
     bindE (lookup states (name @ ''_R'')) (\<lambda>R.
     bindE (lookup states (name @ ''_G'')) (\<lambda>G.
     bindE (lookup states (name @ ''_S'')) (\<lambda>S.
     bindE (lookup states (name @ ''_C'')) (\<lambda>C.
     bindE (lookup states current_name) (\<lambda>I_read.
     let dt = dt_ms / 1000 in
     bindE (fdiv (beta * C_dark) I_dark) (\<lambda>q.
     bindE (fdiv eta phi) (\<lambda>eta_phi.
     bindE (fdiv C_dark K_GC) (\<lambda>cd_k.
     bindE (fpow cd_k m) (\<lambda>cd_k_m.
     let S_max = eta_phi * G_dark * (1 + cd_k_m);
         dR_dt = gamma * Stim - sigma * R;
         dP_dt = R - phi * P + eta;
         dG_dt = S - P * G
     in
     bindE (fpow G n) (\<lambda>G_n.
     let I = k * G_n;
         dC_dt = q * I - beta * C
     in
     bindE (fdiv C K_GC) (\<lambda>c_k.
     bindE (fpow c_k m) (\<lambda>c_k_m.
     bindE (fdiv S_max (1 + c_k_m)) (\<lambda>S_new.
     let R_new = R + dR_dt * dt;
         P_new = P + dP_dt * dt;
         G_new = G + dG_dt * dt;
         C_new = C + dC_dt * dt
     in Inr [name @ ''_R'' \<mapsto> R_new,
             name @ ''_P'' \<mapsto> P_new,
             name @ ''_G'' \<mapsto> G_new,
             name @ ''_S'' \<mapsto> S_new,
             name @ ''_C'' \<mapsto> C_new,
             name @ ''_Stim'' \<mapsto> Stim])))))))))))))))))))))))))))))"

definition Phototransduction_compute_current :: "string \<Rightarrow> dict \<Rightarrow> real \<Rightarrow> dict \<Rightarrow> real result" where
  "Phototransduction_compute_current name states v params =
     bindE (lookup states (name @ ''_G'')) (\<lambda>G.
     bindE (lookup params (name @ ''_n'')) (\<lambda>n.
     bindE (lookup params (name @ ''_k'')) (\<lambda>k.
     bindE (fpow G n) (\<lambda>G_n.
     Inr (- k * G_n)))))"

definition Phototransduction_init_state :: "string \<Rightarrow> real \<Rightarrow> dict \<Rightarrow> dict result" where
  "Phototransduction_init_state name v params =
     bindE (lookup params (name @ ''_eta'')) (\<lambda>eta.
     bindE (lookup params (name @ ''_phi'')) (\<lambda>phi.
     bindE (lookup params (name @ ''_G_dark'')) (\<lambda>G_dark.
     bindE (lookup params (name @ ''_Ca_dark'')) (\<lambda>Ca_dark.
     bindE (fdiv eta phi) (\<lambda>P0.
     bindE (fdiv (G_dark * eta) phi) (\<lambda>S0.
     Inr [name @ ''_R'' \<mapsto> 0.0,
          name @ ''_P'' \<mapsto> P0,
          name @ ''_G'' \<mapsto> G_dark,
          name @ ''_S'' \<mapsto> S0,
          name @ ''_C'' \<mapsto> Ca_dark,
          name @ ''_Stim'' \<mapsto> 0.0]))))))"

section \<open>The channel classes together\<close>

datatype channel = Leak | Na | Kdr | CaL | CaN | Phototransduction

fun channel_params :: "channel \<Rightarrow> string \<Rightarrow> (string \<times> real) list" where
  "channel_params Leak name = Leak_channel_params name"
| "channel_params Na name = Na_channel_params name"
| "channel_params Kdr name = Kdr_channel_params name"
| "channel_params CaL name = CaL_channel_params name"
| "channel_params CaN name = CaN_channel_params name"
| "channel_params Phototransduction name = Phototransduction_channel_params name"

fun channel_states :: "channel \<Rightarrow> string \<Rightarrow> (string \<times> real) list" where
  "channel_states Leak name = Leak_channel_states name"
| "channel_states Na name = Na_channel_states name"
| "channel_states Kdr name = Kdr_channel_states name"
| "channel_states CaL name = CaL_channel_states name"
| "channel_states CaN name = CaN_channel_states name"
| "channel_states Phototransduction name = Phototransduction_channel_states name"

section \<open>Reading dictionaries and dividing\<close>

lemma bindE_Inr [simp]: "bindE (Inr x) f = f x"
  by (simp add: bindE_def)

lemma bindE_Inl [simp]: "bindE (Inl e) f = Inl e"
  by (simp add: bindE_def)

lemma bindE_lookup_Some: "d k = Some x \<Longrightarrow> bindE (lookup d k) f = f x"
  by (simp add: lookup_def)

lemma bindE_lookup_None: "d k = None \<Longrightarrow> bindE (lookup d k) f = Inl (KeyError k)"
  by (simp add: lookup_def)

lemma bindE_lookup_KeyError:
  "(\<And>x. \<exists>k. f x = Inl (KeyError k)) \<Longrightarrow> \<exists>k. bindE (lookup d key) f = Inl (KeyError k)"
  by (cases "d key") (auto simp: lookup_def)

lemma bindE_lookup_upd_same: "bindE (lookup (d(k \<mapsto> x)) k) f = f x"
  by (simp add: lookup_def)

lemma lookup_upd_other: "k' \<noteq> k \<Longrightarrow> lookup (d(k \<mapsto> x)) k' = lookup d k'"
  by (simp add: lookup_def)

lemma fdiv_nonzero: "y \<noteq> 0 \<Longrightarrow> fdiv x y = Inr (x / y)"
  by (simp add: fdiv_def)

text \<open>A key built from the instance name carries an underscore; \<open>iPhoto\<close> has none.\<close>

lemma prefixed_key_neq_current [simp]: "name @ CHR ''_'' # s \<noteq> ''iPhoto''"
proof
  assume "name @ CHR ''_'' # s = ''iPhoto''"
  then have "CHR ''_'' \<in> set ''iPhoto''"
    by (metis in_set_conv_decomp)
  then show False by simp
qed

lemma fpow_2_4: "fpow 2 4 = Inr 16"
  by (simp add: fpow_def)

lemma fpow_x_3: "fpow x 3 = Inr (x ^ 3)"
  by (simp add: fpow_def)

lemma fpow_x_4: "fpow x 4 = Inr (x ^ 4)"
  by (simp add: fpow_def)

section \<open>Leak current at the default parameters\<close>

text \<open>
  C5 (as the specification states it, refuted): with the default parameters
  \<open>gl = 0.25e-9\<close> and \<open>el = -60\<close>, \<open>Leak.compute_current\<close> at \<open>V = 0\<close> is said to
  return \<open>0.015\<close>. The product \<open>0.25e-9 * 1000 * 60\<close> is \<open>0.000015\<close>.
\<close>

theorem Leak_current_at_zero_not_0015:
  "Leak_compute_current ''Leak'' Map.empty 0 (map_of (Leak_channel_params ''Leak''))
     \<noteq> Inr 0.015"
  by (simp add: Leak_compute_current_def Leak_channel_params_def lookup_def bindE_def)

text \<open>
  C5 (amended): with the default parameters \<open>Leak.compute_current\<close> returns exactly \<open>0\<close>
  at \<open>V = -60\<close> and \<open>0.000015 = 0.25e-9 * 1000 * (0 - (-60))\<close> at \<open>V = 0\<close>, whatever the
  instance name and the state dictionary.
\<close>

theorem Leak_current_default:
  "Leak_compute_current name u (- 60) (map_of (Leak_channel_params name)) = Inr 0
   \<and> Leak_compute_current name u 0 (map_of (Leak_channel_params name)) = Inr (15 / 10 ^ 6)"
  by (simp add: Leak_compute_current_def Leak_channel_params_def lookup_def bindE_def)

section \<open>Current at the reversal potential\<close>

text \<open>
  C7 (as the specification states it, refuted): the claim is for any gate values. On a
  state whose \<open>m\<close> gate is not finite, as \<open>Na.update_states\<close> leaves it at \<open>V = -29\<close>,
  \<open>Na.compute_current\<close> at the voltage \<open>vNa = 75\<close> multiplies a conductance that is not
  finite by \<open>75 - 75 = 0\<close>: the current is NaN, not zero.
\<close>

theorem compute_current_nonfinite_gate:
  "fin_dict (map_of (Na_channel_params ''Na'')) ''Na_vNa'' = Some (Fin 75)
   \<and> Na_compute_current ''Na'' [''Na_m'' \<mapsto> NonFin, ''Na_h'' \<mapsto> Fin 0.2] (Fin 75)
        (fin_dict (map_of (Na_channel_params ''Na''))) = Inr NonFin"
  by (simp add: Na_compute_current_def Na_channel_params_def fin_dict_def lookup_def)

text \<open>
  C7 (amended): for each of the gated channels Na, Kdr, CaL and CaN, every state
  dictionary whose gate values are finite and every parameter dictionary whose
  conductance and reversal potential are finite, with gates and conductance of magnitude
  at most \<open>10 ^ 6\<close> (so that the conductance product does not overflow),
  \<open>compute_current\<close> at a voltage equal to the reversal-potential parameter (\<open>vNa\<close>,
  \<open>vK\<close>, \<open>vCa\<close>) returns exactly zero.
\<close>

theorem compute_current_zero_at_reversal_finite:
  "(u (name @ ''_m'') = Some (Fin m) \<and> u (name @ ''_h'') = Some (Fin h) \<and>
    params (name @ ''_gNa'') = Some (Fin g) \<and> params (name @ ''_vNa'') = Some (Fin E) \<and>
    \<bar>m\<bar> \<le> 10 ^ 6 \<and> \<bar>h\<bar> \<le> 10 ^ 6 \<and> \<bar>g\<bar> \<le> 10 ^ 6
      \<longrightarrow> Na_compute_current name u (Fin E) params = Inr (Fin 0))
   \<and> (u (name @ ''_m'') = Some (Fin m) \<and>
    params (name @ ''_gKdr'') = Some (Fin g) \<and> params ''vK'' = Some (Fin E) \<and>
    \<bar>m\<bar> \<le> 10 ^ 6 \<and> \<bar>g\<bar> \<le> 10 ^ 6
      \<longrightarrow> Kdr_compute_current name u (Fin E) params = Inr (Fin 0))
   \<and> (u (name @ ''_m'') = Some (Fin m) \<and>
    params (name @ ''_gCaL'') = Some (Fin g) \<and> params ''vCa'' = Some (Fin E) \<and>
    \<bar>m\<bar> \<le> 10 ^ 6 \<and> \<bar>g\<bar> \<le> 10 ^ 6
      \<longrightarrow> CaL_compute_current name u (Fin E) params = Inr (Fin 0))
   \<and> (u (name @ ''_m'') = Some (Fin m) \<and> u (name @ ''_h'') = Some (Fin h) \<and>
    params (name @ ''_gCaN'') = Some (Fin g) \<and> params ''vCa'' = Some (Fin E) \<and>
    \<bar>m\<bar> \<le> 10 ^ 6 \<and> \<bar>h\<bar> \<le> 10 ^ 6 \<and> \<bar>g\<bar> \<le> 10 ^ 6
      \<longrightarrow> CaN_compute_current name u (Fin E) params = Inr (Fin 0))"
  by (simp add: Na_compute_current_def Kdr_compute_current_def CaL_compute_current_def
      CaN_compute_current_def lookup_def)

theorem compute_current_zero_at_reversal_finite_witness:
  "Na_compute_current ''Na'' (fin_dict (map_of (Na_channel_states ''Na''))) (Fin 75)
      (fin_dict (map_of (Na_channel_params ''Na''))) = Inr (Fin 0)
   \<and> Kdr_compute_current ''Kdr'' (fin_dict (map_of (Kdr_channel_states ''Kdr''))) (Fin (- 85))
      (fin_dict (map_of (Kdr_channel_params ''Kdr''))) = Inr (Fin 0)
   \<and> CaL_compute_current ''CaL'' (fin_dict (map_of (CaL_channel_states ''CaL''))) (Fin 45)
      (fin_dict (map_of (CaL_channel_params ''CaL''))) = Inr (Fin 0)
   \<and> CaN_compute_current ''CaN'' (fin_dict (map_of (CaN_channel_states ''CaN''))) (Fin 45)
      (fin_dict (map_of (CaN_channel_params ''CaN''))) = Inr (Fin 0)"
proof -
  have na: "Na_compute_current ''Na'' (fin_dict (map_of (Na_channel_states ''Na''))) (Fin 75)
      (fin_dict (map_of (Na_channel_params ''Na''))) = Inr (Fin 0)"
    using compute_current_zero_at_reversal_finite
      [of "fin_dict (map_of (Na_channel_states ''Na''))" "''Na''" "0.2" "0.2"
          "fin_dict (map_of (Na_channel_params ''Na''))" "150 / 10 ^ 9" 75]
    by (simp add: Na_channel_states_def Na_channel_params_def fin_dict_def)
  have kdr: "Kdr_compute_current ''Kdr'' (fin_dict (map_of (Kdr_channel_states ''Kdr'')))
      (Fin (- 85)) (fin_dict (map_of (Kdr_channel_params ''Kdr''))) = Inr (Fin 0)"
    using compute_current_zero_at_reversal_finite
      [of "fin_dict (map_of (Kdr_channel_states ''Kdr''))" "''Kdr''" "0.1" "0"
          "fin_dict (map_of (Kdr_channel_params ''Kdr''))" "75 / 10 ^ 9" "- 85"]
    by (simp add: Kdr_channel_states_def Kdr_channel_params_def fin_dict_def)
  have cal: "CaL_compute_current ''CaL'' (fin_dict (map_of (CaL_channel_states ''CaL'')))
      (Fin 45) (fin_dict (map_of (CaL_channel_params ''CaL''))) = Inr (Fin 0)"
    using compute_current_zero_at_reversal_finite
      [of "fin_dict (map_of (CaL_channel_states ''CaL''))" "''CaL''" "0.1" "0"
          "fin_dict (map_of (CaL_channel_params ''CaL''))" "2 / 10 ^ 9" 45]
    by (simp add: CaL_channel_states_def CaL_channel_params_def fin_dict_def)
  have can: "CaN_compute_current ''CaN'' (fin_dict (map_of (CaN_channel_states ''CaN'')))
      (Fin 45) (fin_dict (map_of (CaN_channel_params ''CaN''))) = Inr (Fin 0)"
    using compute_current_zero_at_reversal_finite
      [of "fin_dict (map_of (CaN_channel_states ''CaN''))" "''CaN''" "0.2" "0.2"
          "fin_dict (map_of (CaN_channel_params ''CaN''))" "1.5 / 10 ^ 9" 45]
    by (simp add: CaN_channel_states_def CaN_channel_params_def fin_dict_def)
  from na kdr cal can show ?thesis by simp
qed

section \<open>The phototransduction step\<close>

text \<open>
  C2 (as the specification states it, refuted): all five variables are said to advance by
  \<open>value + derivative * dt_seconds\<close>. With \<open>dt = 0\<close> that leaves every variable as it
  was; at the declared \<open>channel_states\<close> (where \<open>S = 1\<close>) and the default parameters the
  step with \<open>dt = 0\<close> returns \<open>S = 340000 / 11 / (1 + 0.672 ^ 4)\<close>, about \<open>25674\<close>.
\<close>

theorem update_states_S_not_integrated:
  "Phototransduction_update_states ''Phototransduction''
      ((map_of (Phototransduction_channel_states ''Phototransduction''))(current_name \<mapsto> 0))
      0 0 (map_of (Phototransduction_channel_params ''Phototransduction'')) =
     Inr [''Phototransduction_R'' \<mapsto> 0,
          ''Phototransduction_P'' \<mapsto> 90,
          ''Phototransduction_G'' \<mapsto> 1,
          ''Phototransduction_S'' \<mapsto> 340000 / 11 / (1 + 0.672 ^ 4),
          ''Phototransduction_C'' \<mapsto> 0.336,
          ''Phototransduction_Stim'' \<mapsto> 0]
   \<and> map_of (Phototransduction_channel_states ''Phototransduction'') ''Phototransduction_S''
       = Some 1
   \<and> 340000 / 11 / (1 + 0.672 ^ 4) \<noteq> (1 :: real)"
  by (simp add: Phototransduction_update_states_def
      Phototransduction_channel_params_def Phototransduction_channel_states_def
      current_name_def lookup_def fdiv_def fpow_def power_divide)

text \<open>
  C2 (amended): \<open>update_states\<close> rescales the time step to seconds (\<open>dt / 1000\<close>) and
  advances \<open>R\<close>, \<open>P\<close>, \<open>G\<close> and \<open>C\<close> by \<open>value + derivative * dt_seconds\<close>, each
  derivative computed from the old values of the state:
  \<open>dR = gamma * Stim - sigma * R\<close>, \<open>dP = R - phi * P + eta\<close>, \<open>dG = S - P * G\<close>,
  \<open>dC = q * (k * G ** n) - beta * C\<close> with \<open>q = beta * Ca_dark / I_dark\<close>.
  \<open>S\<close> is not integrated: it is set to \<open>S_max / (1 + (C / K_GC) ** m)\<close> with
  \<open>S_max = eta / phi * G_dark * (1 + (Ca_dark / K_GC) ** m)\<close>, a function of the old \<open>C\<close>
  alone, whatever the time step and the old \<open>S\<close>. No new value reads another new value,
  and \<open>Stim\<close> is returned as it was.
\<close>

theorem update_states_forward_euler:
  assumes "params (name @ ''_gamma'') = Some gamma"
    and "params (name @ ''_sigma'') = Some sigma"
    and "params (name @ ''_phi'') = Some phi"
    and "params (name @ ''_eta'') = Some eta"
    and "params (name @ ''_q'') = Some q0"
    and "params (name @ ''_beta'') = Some beta"
    and "params (name @ ''_S_max'') = Some S_max0"
    and "params (name @ ''_K_GC'') = Some K_GC"
    and "params (name @ ''_m'') = Some m"
    and "params (name @ ''_k'') = Some k"
    and "params (name @ ''_n'') = Some n"
    and "params (name @ ''_I_dark'') = Some I_dark"
    and "params (name @ ''_Ca_dark'') = Some C_dark"
    and "params (name @ ''_G_dark'') = Some G_dark"
    and "states (name @ ''_Stim'') = Some Stim"
    and "states (name @ ''_P'') = Some P"
    and "states (name @ ''_R'') = Some R"
    and "states (name @ ''_G'') = Some G"
    and "states (name @ ''_S'') = Some S"
    and "states (name @ ''_C'') = Some C"
    and "states current_name = Some I0"
    and "I_dark \<noteq> 0" and "phi \<noteq> 0" and "K_GC \<noteq> 0"
    and "fpow (C_dark / K_GC) m = Inr cd_m"
    and "fpow G n = Inr G_n"
    and "fpow (C / K_GC) m = Inr c_m"
    and "1 + c_m \<noteq> 0"
  shows "Phototransduction_update_states name states dt v params =
     Inr [name @ ''_R'' \<mapsto> R + (gamma * Stim - sigma * R) * (dt / 1000),
          name @ ''_P'' \<mapsto> P + (R - phi * P + eta) * (dt / 1000),
          name @ ''_G'' \<mapsto> G + (S - P * G) * (dt / 1000),
          name @ ''_S'' \<mapsto> eta / phi * G_dark * (1 + cd_m) / (1 + c_m),
          name @ ''_C'' \<mapsto> C + (beta * C_dark / I_dark * (k * G_n) - beta * C) * (dt / 1000),
          name @ ''_Stim'' \<mapsto> Stim]"
  unfolding Phototransduction_update_states_def
  using assms by (simp add: bindE_lookup_Some fdiv_nonzero Let_def)

theorem update_states_forward_euler_witness:
  "Phototransduction_update_states ''Phototransduction''
      ((map_of (Phototransduction_channel_states ''Phototransduction''))(current_name \<mapsto> 0))
      1 0 (map_of (Phototransduction_channel_params ''Phototransduction'')) =
     Inr [''Phototransduction_R'' \<mapsto> 0 + (10 * 0 - 22 * 0) * (1 / 1000),
          ''Phototransduction_P'' \<mapsto> 90 + (0 - 22 * 90 + 2000) * (1 / 1000),
          ''Phototransduction_G'' \<mapsto> 1 + (1 - 90 * 1) * (1 / 1000),
          ''Phototransduction_S'' \<mapsto> 2000 / 22 * 20 * (1 + 16) / (1 + 0.672 ^ 4),
          ''Phototransduction_C'' \<mapsto> 0.336 + (9 * 1 / 80 * (0.01 * 1) - 9 * 0.336) * (1 / 1000),
          ''Phototransduction_Stim'' \<mapsto> 0]"
  using update_states_forward_euler
    [where name = "''Phototransduction''"
       and params = "map_of (Phototransduction_channel_params ''Phototransduction'')"
       and states = "(map_of (Phototransduction_channel_states ''Phototransduction''))(current_name \<mapsto> 0)"
       and gamma = 10 and sigma = 22 and phi = 22 and eta = 2000 and ?q0.0 = 1 and beta = 9
       and ?S_max0.0 = 30909 and K_GC = "0.5" and m = 4 and k = "0.01" and n = 3
       and I_dark = 80 and C_dark = 1 and G_dark = 20
       and Stim = 0 and P = 90 and R = 0 and G = 1 and S = 1 and C = "0.336" and ?I0.0 = 0
       and cd_m = 16 and G_n = 1 and c_m = "0.672 ^ 4" and dt = 1 and v = 0]
  by (simp add: Phototransduction_channel_params_def Phototransduction_channel_states_def
      current_name_def fpow_def power_divide)

section \<open>The dark steady state\<close>

text \<open>
  C6: with the default parameters, the state returned by \<open>init_state\<close> (the dark steady
  state \<open>R = 0\<close>, \<open>P = eta / phi\<close>, \<open>G = G_dark\<close>, \<open>S = G_dark * eta / phi\<close>,
  \<open>C = Ca_dark\<close>, \<open>Stim = 0\<close>), with \<open>Stim\<close> held at \<open>0\<close>, is a fixed point of
  \<open>update_states\<close>: for every time step the step returns the same values of \<open>R\<close>, \<open>P\<close>,
  \<open>G\<close>, \<open>S\<close> and \<open>C\<close>, all derivatives being zero at the dark state. The state passed to
  the step carries, beside the six entries of \<open>init_state\<close>, the entry for the current
  name that the host keeps there, whatever its value. The equality is exact in the real
  arithmetic of the model; the claim asks for it to within floating-point tolerance.
\<close>

theorem dark_state_fixed_point:
  "\<exists>D. Phototransduction_init_state name v (map_of (Phototransduction_channel_params name)) = Inr D
     \<and> D (name @ ''_R'') = Some 0
     \<and> D (name @ ''_P'') = Some (2000 / 22)
     \<and> D (name @ ''_G'') = Some 20
     \<and> D (name @ ''_S'') = Some (20 * 2000 / 22)
     \<and> D (name @ ''_C'') = Some 1
     \<and> D (name @ ''_Stim'') = Some 0
     \<and> (\<forall>dt i. Phototransduction_update_states name (D(current_name \<mapsto> i)) dt v
            (map_of (Phototransduction_channel_params name)) = Inr D)"
  by (simp add: Phototransduction_init_state_def Phototransduction_update_states_def
      Phototransduction_channel_params_def current_name_def lookup_def fdiv_def
      fpow_2_4 fpow_x_3 fpow_x_4)

section \<open>The derived parameters \<open>q\<close> and \<open>S_max\<close>\<close>

lemma update_states_ignores_q_S_max:
  "Phototransduction_update_states name states dt v
      (params(name @ ''_q'' \<mapsto> q1, name @ ''_S_max'' \<mapsto> s1))
   = Phototransduction_update_states name states dt v
      (params(name @ ''_q'' \<mapsto> q2, name @ ''_S_max'' \<mapsto> s2))"
  unfolding Phototransduction_update_states_def
  by (simp add: lookup_def)

lemma update_states_same_off_q_S_max:
  assumes "dom p1 = dom p2"
    and "\<forall>k. k \<noteq> name @ ''_q'' \<and> k \<noteq> name @ ''_S_max'' \<longrightarrow> p1 k = p2 k"
  shows "Phototransduction_update_states name states dt v p1
       = Phototransduction_update_states name states dt v p2"
proof -
  have q: "(p1 (name @ ''_q'') = None) = (p2 (name @ ''_q'') = None)"
    using assms(1) by (metis domIff)
  have s: "(p1 (name @ ''_S_max'') = None) = (p2 (name @ ''_S_max'') = None)"
    using assms(1) by (metis domIff)
  have other: "\<And>k. k \<noteq> name @ ''_q'' \<Longrightarrow> k \<noteq> name @ ''_S_max'' \<Longrightarrow> lookup p1 k = lookup p2 k"
    using assms(2) by (simp add: lookup_def)
  show ?thesis
  proof (cases "p1 (name @ ''_q'')")
    case None
    with q have "p2 (name @ ''_q'') = None" by simp
    with None show ?thesis
      unfolding Phototransduction_update_states_def
      by (simp add: other bindE_lookup_None)
  next
    case (Some q1)
    with q obtain q2 where q2: "p2 (name @ ''_q'') = Some q2" by auto
    show ?thesis
    proof (cases "p1 (name @ ''_S_max'')")
      case None
      with s have "p2 (name @ ''_S_max'') = None" by simp
      with None Some q2 show ?thesis
        unfolding Phototransduction_update_states_def
        by (simp add: other bindE_lookup_None bindE_lookup_Some)
    next
      case S1: (Some s1)
      with s obtain s2 where s2: "p2 (name @ ''_S_max'') = Some s2" by auto
      from Some q2 S1 s2 show ?thesis
        unfolding Phototransduction_update_states_def
        by (simp add: other bindE_lookup_Some)
    qed
  qed
qed

lemma update_states_value:
  assumes "params (name @ ''_gamma'') = Some gamma"
    and "params (name @ ''_sigma'') = Some sigma"
    and "params (name @ ''_phi'') = Some phi"
    and "params (name @ ''_eta'') = Some eta"
    and "params (name @ ''_q'') = Some q0"
    and "params (name @ ''_beta'') = Some beta"
    and "params (name @ ''_S_max'') = Some S_max0"
    and "params (name @ ''_K_GC'') = Some K_GC"
    and "params (name @ ''_m'') = Some m"
    and "params (name @ ''_k'') = Some k"
    and "params (name @ ''_n'') = Some n"
    and "params (name @ ''_I_dark'') = Some I_dark"
    and "params (name @ ''_Ca_dark'') = Some C_dark"
    and "params (name @ ''_G_dark'') = Some G_dark"
    and "states (name @ ''_Stim'') = Some Stim"
    and "states (name @ ''_P'') = Some P"
    and "states (name @ ''_R'') = Some R"
    and "states (name @ ''_G'') = Some G"
    and "states (name @ ''_S'') = Some S"
    and "states (name @ ''_C'') = Some C"
    and "states current_name = Some I0"
    and "I_dark \<noteq> 0" and "phi \<noteq> 0" and "K_GC \<noteq> 0"
    and "fpow (C_dark / K_GC) m = Inr cd_m"
    and "fpow G n = Inr G_n"
    and "fpow (C / K_GC) m = Inr c_m"
    and "1 + c_m \<noteq> 0"
  shows "Phototransduction_update_states name states dt v params =
     Inr [name @ ''_R'' \<mapsto> R + (gamma * Stim - sigma * R) * (dt / 1000),
          name @ ''_P'' \<mapsto> P + (R - phi * P + eta) * (dt / 1000),
          name @ ''_G'' \<mapsto> G + (S - P * G) * (dt / 1000),
          name @ ''_S'' \<mapsto> eta / phi * G_dark * (1 + cd_m) / (1 + c_m),
          name @ ''_C'' \<mapsto> C + (beta * C_dark / I_dark * (k * G_n) - beta * C) * (dt / 1000),
          name @ ''_Stim'' \<mapsto> Stim]"
  unfolding Phototransduction_update_states_def
  using assms by (simp add: bindE_lookup_Some fdiv_nonzero Let_def)

text \<open>
  C8: \<open>update_states\<close> does not depend on the supplied \<open>q\<close> and \<open>S_max\<close>. Two parameter
  dictionaries with the same keys that agree on every entry other than \<open>q\<close> and \<open>S_max\<close>
  give the same outcome on the same state, time step and voltage; and on every call the
  values read for \<open>q\<close> and \<open>S_max\<close> (here \<open>q0\<close> and \<open>S_max0\<close>) are discarded and the
  step uses \<open>q = beta * Ca_dark / I_dark\<close> in the new \<open>C\<close> and
  \<open>S_max = eta / phi * G_dark * (1 + (Ca_dark / K_GC) ** m)\<close> in the new \<open>S\<close>.
\<close>

theorem update_states_recomputes_q_S_max:
  "(dom p1 = dom p2 \<and>
      (\<forall>key. key \<noteq> name @ ''_q'' \<and> key \<noteq> name @ ''_S_max'' \<longrightarrow> p1 key = p2 key) \<longrightarrow>
      Phototransduction_update_states name states dt v p1
      = Phototransduction_update_states name states dt v p2)
   \<and> (p1 (name @ ''_gamma'') = Some gamma \<and> p1 (name @ ''_sigma'') = Some sigma \<and>
       p1 (name @ ''_phi'') = Some phi \<and> p1 (name @ ''_eta'') = Some eta \<and>
       p1 (name @ ''_q'') = Some q0 \<and> p1 (name @ ''_beta'') = Some beta \<and>
       p1 (name @ ''_S_max'') = Some S_max0 \<and> p1 (name @ ''_K_GC'') = Some K_GC \<and>
       p1 (name @ ''_m'') = Some m \<and> p1 (name @ ''_k'') = Some k \<and>
       p1 (name @ ''_n'') = Some n \<and> p1 (name @ ''_I_dark'') = Some I_dark \<and>
       p1 (name @ ''_Ca_dark'') = Some C_dark \<and> p1 (name @ ''_G_dark'') = Some G_dark \<and>
       states (name @ ''_Stim'') = Some Stim \<and> states (name @ ''_P'') = Some P \<and>
       states (name @ ''_R'') = Some R \<and> states (name @ ''_G'') = Some G \<and>
       states (name @ ''_S'') = Some S \<and> states (name @ ''_C'') = Some C \<and>
       states current_name = Some I0 \<and>
       I_dark \<noteq> 0 \<and> phi \<noteq> 0 \<and> K_GC \<noteq> 0 \<and>
       fpow (C_dark / K_GC) m = Inr cd_m \<and> fpow G n = Inr G_n \<and>
       fpow (C / K_GC) m = Inr c_m \<and> 1 + c_m \<noteq> 0 \<longrightarrow>
      (let q = beta * C_dark / I_dark;
           S_max = eta / phi * G_dark * (1 + cd_m)
       in Phototransduction_update_states name states dt v p1 =
          Inr [name @ ''_R'' \<mapsto> R + (gamma * Stim - sigma * R) * (dt / 1000),
               name @ ''_P'' \<mapsto> P + (R - phi * P + eta) * (dt / 1000),
               name @ ''_G'' \<mapsto> G + (S - P * G) * (dt / 1000),
               name @ ''_S'' \<mapsto> S_max / (1 + c_m),
               name @ ''_C'' \<mapsto> C + (q * (k * G_n) - beta * C) * (dt / 1000),
               name @ ''_Stim'' \<mapsto> Stim]))"
proof (intro conjI impI)
  assume "dom p1 = dom p2 \<and>
      (\<forall>key. key \<noteq> name @ ''_q'' \<and> key \<noteq> name @ ''_S_max'' \<longrightarrow> p1 key = p2 key)"
  then show "Phototransduction_update_states name states dt v p1
      = Phototransduction_update_states name states dt v p2"
    using update_states_same_off_q_S_max [of p1 p2 name states dt v] by blast
next
  assume a: "p1 (name @ ''_gamma'') = Some gamma \<and> p1 (name @ ''_sigma'') = Some sigma \<and>
       p1 (name @ ''_phi'') = Some phi \<and> p1 (name @ ''_eta'') = Some eta \<and>
       p1 (name @ ''_q'') = Some q0 \<and> p1 (name @ ''_beta'') = Some beta \<and>
       p1 (name @ ''_S_max'') = Some S_max0 \<and> p1 (name @ ''_K_GC'') = Some K_GC \<and>
       p1 (name @ ''_m'') = Some m \<and> p1 (name @ ''_k'') = Some k \<and>
       p1 (name @ ''_n'') = Some n \<and> p1 (name @ ''_I_dark'') = Some I_dark \<and>
       p1 (name @ ''_Ca_dark'') = Some C_dark \<and> p1 (name @ ''_G_dark'') = Some G_dark \<and>
       states (name @ ''_Stim'') = Some Stim \<and> states (name @ ''_P'') = Some P \<and>
       states (name @ ''_R'') = Some R \<and> states (name @ ''_G'') = Some G \<and>
       states (name @ ''_S'') = Some S \<and> states (name @ ''_C'') = Some C \<and>
       states current_name = Some I0 \<and>
       I_dark \<noteq> 0 \<and> phi \<noteq> 0 \<and> K_GC \<noteq> 0 \<and>
       fpow (C_dark / K_GC) m = Inr cd_m \<and> fpow G n = Inr G_n \<and>
       fpow (C / K_GC) m = Inr c_m \<and> 1 + c_m \<noteq> 0"
  then have "Phototransduction_update_states name states dt v p1 =
     Inr [name @ ''_R'' \<mapsto> R + (gamma * Stim - sigma * R) * (dt / 1000),
          name @ ''_P'' \<mapsto> P + (R - phi * P + eta) * (dt / 1000),
          name @ ''_G'' \<mapsto> G + (S - P * G) * (dt / 1000),
          name @ ''_S'' \<mapsto> eta / phi * G_dark * (1 + cd_m) / (1 + c_m),
          name @ ''_C'' \<mapsto> C + (beta * C_dark / I_dark * (k * G_n) - beta * C) * (dt / 1000),
          name @ ''_Stim'' \<mapsto> Stim]"
    by (intro update_states_value) blast+
  then show "let q = beta * C_dark / I_dark;
           S_max = eta / phi * G_dark * (1 + cd_m)
       in Phototransduction_update_states name states dt v p1 =
          Inr [name @ ''_R'' \<mapsto> R + (gamma * Stim - sigma * R) * (dt / 1000),
               name @ ''_P'' \<mapsto> P + (R - phi * P + eta) * (dt / 1000),
               name @ ''_G'' \<mapsto> G + (S - P * G) * (dt / 1000),
               name @ ''_S'' \<mapsto> S_max / (1 + c_m),
               name @ ''_C'' \<mapsto> C + (q * (k * G_n) - beta * C) * (dt / 1000),
               name @ ''_Stim'' \<mapsto> Stim]"
    by (simp only: Let_def)
qed

theorem update_states_recomputes_q_S_max_witness:
  "Phototransduction_update_states ''Phototransduction''
      ((map_of (Phototransduction_channel_states ''Phototransduction''))(current_name \<mapsto> 0))
      1 0 ((map_of (Phototransduction_channel_params ''Phototransduction''))
             (''Phototransduction_q'' \<mapsto> 2, ''Phototransduction_S_max'' \<mapsto> 5))
   = Phototransduction_update_states ''Phototransduction''
      ((map_of (Phototransduction_channel_states ''Phototransduction''))(current_name \<mapsto> 0))
      1 0 (map_of (Phototransduction_channel_params ''Phototransduction''))
   \<and> Phototransduction_update_states ''Phototransduction''
      ((map_of (Phototransduction_channel_states ''Phototransduction''))(current_name \<mapsto> 0))
      1 0 ((map_of (Phototransduction_channel_params ''Phototransduction''))
             (''Phototransduction_q'' \<mapsto> 2, ''Phototransduction_S_max'' \<mapsto> 5))
   = Inr [''Phototransduction_R'' \<mapsto> 0,
          ''Phototransduction_P'' \<mapsto> 90 + (0 - 22 * 90 + 2000) * (1 / 1000),
          ''Phototransduction_G'' \<mapsto> 1 + (1 - 90 * 1) * (1 / 1000),
          ''Phototransduction_S'' \<mapsto> 2000 / 22 * 20 * (1 + 16) / (1 + 0.672 ^ 4),
          ''Phototransduction_C'' \<mapsto> 0.336 + (9 * 1 / 80 * (0.01 * 1) - 9 * 0.336) * (1 / 1000),
          ''Phototransduction_Stim'' \<mapsto> 0]"
proof -
  let ?p2 = "map_of (Phototransduction_channel_params ''Phototransduction'')"
  let ?p1 = "?p2(''Phototransduction_q'' \<mapsto> 2, ''Phototransduction_S_max'' \<mapsto> 5)"
  let ?st = "(map_of (Phototransduction_channel_states ''Phototransduction''))(current_name \<mapsto> 0)"
  note T = update_states_recomputes_q_S_max
    [where name = "''Phototransduction''" and ?p1.0 = "?p1" and ?p2.0 = "?p2"
       and states = "?st" and dt = 1 and v = 0
       and gamma = 10 and sigma = 22 and phi = 22 and eta = 2000 and ?q0.0 = 2 and beta = 9
       and ?S_max0.0 = 5 and K_GC = "0.5" and m = 4 and k = "0.01" and n = 3
       and I_dark = 80 and C_dark = 1 and G_dark = 20
       and Stim = 0 and P = 90 and R = 0 and G = 1 and S = 1 and C = "0.336" and ?I0.0 = 0
       and cd_m = 16 and G_n = 1 and c_m = "0.672 ^ 4"]
  have d: "dom ?p1 = dom ?p2"
    by (auto simp: Phototransduction_channel_params_def)
  have a: "\<forall>key. key \<noteq> ''Phototransduction'' @ ''_q'' \<and> key \<noteq> ''Phototransduction'' @ ''_S_max''
            \<longrightarrow> ?p1 key = ?p2 key"
    by simp
  have same: "Phototransduction_update_states ''Phototransduction'' ?st 1 0 ?p1
      = Phototransduction_update_states ''Phototransduction'' ?st 1 0 ?p2"
    using T d a by blast
  have val: "Phototransduction_update_states ''Phototransduction'' ?st 1 0 ?p1
   = Inr [''Phototransduction_R'' \<mapsto> 0,
          ''Phototransduction_P'' \<mapsto> 90 + (0 - 22 * 90 + 2000) * (1 / 1000),
          ''Phototransduction_G'' \<mapsto> 1 + (1 - 90 * 1) * (1 / 1000),
          ''Phototransduction_S'' \<mapsto> 2000 / 22 * 20 * (1 + 16) / (1 + 0.672 ^ 4),
          ''Phototransduction_C'' \<mapsto> 0.336 + (9 * 1 / 80 * (0.01 * 1) - 9 * 0.336) * (1 / 1000),
          ''Phototransduction_Stim'' \<mapsto> 0]"
    using T
    by (simp add: Phototransduction_channel_params_def Phototransduction_channel_states_def
        current_name_def fpow_def power_divide Let_def)
  from same val show ?thesis by (intro conjI)
qed

section \<open>The read of the current entry\<close>

lemma update_states_missing_current:
  assumes "states current_name = None"
  shows "\<exists>k. Phototransduction_update_states name states dt v params = Inl (KeyError k)"
proof -
  from assms have K: "\<And>f. \<exists>k. bindE (lookup states current_name) f = Inl (KeyError k)"
    by (simp add: lookup_def)
  show ?thesis
    unfolding Phototransduction_update_states_def
    by (intro K bindE_lookup_KeyError)
qed

lemma update_states_ignores_current:
  "Phototransduction_update_states name (states(current_name \<mapsto> i)) dt v params
   = Phototransduction_update_states name (states(current_name \<mapsto> j)) dt v params"
  unfolding Phototransduction_update_states_def
  by (simp add: lookup_upd_other bindE_lookup_upd_same current_name_def)

lemma init_state_no_current:
  "Phototransduction_init_state name v params = Inr s \<Longrightarrow> s current_name = None"
  unfolding Phototransduction_init_state_def
  by (auto simp: bindE_def lookup_def fdiv_def current_name_def split: option.splits if_splits)

lemma channel_states_no_current:
  "map_of (Phototransduction_channel_states name) current_name = None"
  by (simp add: Phototransduction_channel_states_def current_name_def)

text \<open>
  At the default parameters every other read succeeds, so on the dictionary that
  \<open>init_state\<close> returns the step fails at the read of \<open>iPhoto\<close> itself.
\<close>

lemma update_states_raises_on_init_state:
  "Phototransduction_init_state ''Phototransduction'' 0
      (map_of (Phototransduction_channel_params ''Phototransduction''))
    = Inr [''Phototransduction_R'' \<mapsto> 0,
           ''Phototransduction_P'' \<mapsto> 2000 / 22,
           ''Phototransduction_G'' \<mapsto> 20,
           ''Phototransduction_S'' \<mapsto> 20 * 2000 / 22,
           ''Phototransduction_C'' \<mapsto> 1,
           ''Phototransduction_Stim'' \<mapsto> 0]
   \<and> Phototransduction_update_states ''Phototransduction''
        [''Phototransduction_R'' \<mapsto> 0,
         ''Phototransduction_P'' \<mapsto> 2000 / 22,
         ''Phototransduction_G'' \<mapsto> 20,
         ''Phototransduction_S'' \<mapsto> 20 * 2000 / 22,
         ''Phototransduction_C'' \<mapsto> 1,
         ''Phototransduction_Stim'' \<mapsto> 0]
        1 0 (map_of (Phototransduction_channel_params ''Phototransduction''))
    = Inl (KeyError ''iPhoto'')"
  by (simp add: Phototransduction_init_state_def Phototransduction_update_states_def
      Phototransduction_channel_params_def current_name_def lookup_def fdiv_def)

text \<open>
  C10: \<open>update_states\<close> reads \<^verbatim>\<open>states[self.current_name]\<close>, the entry \<open>iPhoto\<close>: on any
  state dictionary without that key it raises a \<open>KeyError\<close>. Neither the dictionary
  returned by \<open>init_state\<close> nor the declared \<open>channel_states\<close> has the key. The value read
  is overwritten before use: two state dictionaries that differ only in it give the same
  outcome.
\<close>

theorem update_states_requires_current:
  "(states current_name = None \<longrightarrow>
      (\<exists>k. Phototransduction_update_states name states dt v params = Inl (KeyError k)))
   \<and> (Phototransduction_init_state name v params = Inr s \<longrightarrow> s current_name = None)
   \<and> map_of (Phototransduction_channel_states name) current_name = None
   \<and> Phototransduction_update_states name (states(current_name \<mapsto> i)) dt v params
     = Phototransduction_update_states name (states(current_name \<mapsto> j)) dt v params"
  using update_states_missing_current init_state_no_current channel_states_no_current
    update_states_ignores_current
  by blast

theorem update_states_requires_current_witness:
  "(\<exists>k. Phototransduction_update_states ''Phototransduction''
          (map_of (Phototransduction_channel_states ''Phototransduction'')) 1 0
          (map_of (Phototransduction_channel_params ''Phototransduction'')) = Inl (KeyError k))
   \<and> (\<exists>D. Phototransduction_init_state ''Phototransduction'' 0
          (map_of (Phototransduction_channel_params ''Phototransduction'')) = Inr D
        \<and> D current_name = None
        \<and> (\<exists>k. Phototransduction_update_states ''Phototransduction'' D 1 0
          (map_of (Phototransduction_channel_params ''Phototransduction'')) = Inl (KeyError k)))"
proof -
  let ?P = "map_of (Phototransduction_channel_params ''Phototransduction'')"
  let ?S = "map_of (Phototransduction_channel_states ''Phototransduction'')"
  have s: "?S current_name = None"
    by (simp add: Phototransduction_channel_states_def current_name_def)
  obtain D where D: "Phototransduction_init_state ''Phototransduction'' 0 ?P = Inr D"
    by (simp add: Phototransduction_init_state_def Phototransduction_channel_params_def
        lookup_def fdiv_def)
  have first: "\<exists>k. Phototransduction_update_states ''Phototransduction'' ?S 1 0 ?P
      = Inl (KeyError k)"
    using update_states_requires_current
      [where states = "?S" and name = "''Phototransduction''" and dt = 1 and v = 0
         and params = "?P"] s
    by blast
  have none: "D current_name = None"
    using update_states_requires_current
      [where s = D and name = "''Phototransduction''" and v = 0 and params = "?P"] D
    by blast
  have second: "\<exists>k. Phototransduction_update_states ''Phototransduction'' D 1 0 ?P
      = Inl (KeyError k)"
    using update_states_requires_current
      [where states = D and name = "''Phototransduction''" and dt = 1 and v = 0
         and params = "?P"] none
    by blast
  from first D none second show ?thesis by blast
qed

section \<open>Namespacing of dictionary keys\<close>

lemma key_eq_suffix: "n1 @ s1 = n2 @ s2 \<Longrightarrow> suffix s1 s2 \<or> suffix s2 s1"
  by (auto simp: append_eq_append_conv2 suffix_def)

lemmas channel_items_defs =
  Leak_channel_params_def Na_channel_params_def Kdr_channel_params_def
  CaL_channel_params_def CaN_channel_params_def Phototransduction_channel_params_def
  Leak_channel_states_def Na_channel_states_def Kdr_channel_states_def
  CaL_channel_states_def CaN_channel_states_def Phototransduction_channel_states_def

lemma states_keys_prefixed:
  "k \<in> keys (channel_states c name) \<Longrightarrow> prefix (name @ ''_'') k"
  by (cases c) (auto simp: keys_def channel_items_defs)

lemma params_keys_prefixed:
  "k \<in> keys (channel_params c name) \<Longrightarrow>
     prefix (name @ ''_'') k \<or> (c = Kdr \<and> k = ''vK'') \<or> ((c = CaL \<or> c = CaN) \<and> k = ''vCa'')"
  by (cases c) (auto simp: keys_def channel_items_defs)

lemma states_keys_disjoint:
  "name1 \<noteq> name2 \<Longrightarrow> keys (channel_states c1 name1) \<inter> keys (channel_states c2 name2) = {}"
  by (cases c1; cases c2)
     (auto simp: keys_def channel_items_defs suffix_to_prefix dest!: key_eq_suffix)

lemma params_keys_disjoint:
  "name1 \<noteq> name2 \<Longrightarrow>
     keys (channel_params c1 name1) \<inter> keys (channel_params c2 name2) \<subseteq> {''vK'', ''vCa''}"
  by (cases c1; cases c2)
     (auto simp: keys_def channel_items_defs suffix_to_prefix dest!: key_eq_suffix)

text \<open>
  C4 (as the specification states it, refuted): the reversal-potential keys of Kdr, CaL
  and CaN are the fixed strings \<open>vK\<close> and \<open>vCa\<close>, without the instance name: \<open>vK\<close>
  does not begin with \<open>Kdr\<close>, and the instances \<open>CaL\<close> and \<open>CaN\<close>, of different names,
  share the parameter key \<open>vCa\<close>.
\<close>

theorem reversal_keys_not_namespaced:
  "''vK'' \<in> keys (channel_params Kdr ''Kdr'') \<and> \<not> prefix ''Kdr'' ''vK''
   \<and> ''vCa'' \<in> keys (channel_params CaL ''CaL'') \<inter> keys (channel_params CaN ''CaN'')
   \<and> ''CaL'' \<noteq> ''CaN''"
  by (simp add: keys_def channel_items_defs)

text \<open>
  C4 (amended): for every channel model, every key of \<open>channel_states\<close> begins with the
  instance name followed by an underscore, and so does every key of \<open>channel_params\<close>
  other than the reversal potentials \<open>vK\<close> (Kdr) and \<open>vCa\<close> (CaL, CaN), which carry no
  instance name. Two channel instances with distinct names therefore share no state key,
  and share no parameter key other than \<open>vK\<close> and \<open>vCa\<close>.
\<close>

theorem channel_keys_namespaced:
  "(\<forall>k \<in> keys (channel_states c name). prefix (name @ ''_'') k)
   \<and> (\<forall>k \<in> keys (channel_params c name).
         prefix (name @ ''_'') k \<or> (c = Kdr \<and> k = ''vK'') \<or> ((c = CaL \<or> c = CaN) \<and> k = ''vCa''))
   \<and> (name1 \<noteq> name2 \<longrightarrow>
         keys (channel_states c1 name1) \<inter> keys (channel_states c2 name2) = {})
   \<and> (name1 \<noteq> name2 \<longrightarrow>
         keys (channel_params c1 name1) \<inter> keys (channel_params c2 name2) \<subseteq> {''vK'', ''vCa''})"
  using states_keys_prefixed params_keys_prefixed states_keys_disjoint params_keys_disjoint
  by blast

theorem channel_keys_namespaced_witness:
  "prefix ''Na_'' ''Na_h''
   \<and> prefix ''Phototransduction_'' ''Phototransduction_S_max''
   \<and> keys (channel_states Na ''Na'') \<inter> keys (channel_states CaN ''CaN'') = {}
   \<and> keys (channel_params CaL ''CaL'') \<inter> keys (channel_params CaN ''CaN'') \<subseteq> {''vK'', ''vCa''}"
proof -
  note T = channel_keys_namespaced
    [where c = Na and name = "''Na''" and ?c1.0 = Na and ?name1.0 = "''Na''"
       and ?c2.0 = CaN and ?name2.0 = "''CaN''"]
  note U = channel_keys_namespaced
    [where c = Phototransduction and name = "''Phototransduction''"
       and ?c1.0 = CaL and ?name1.0 = "''CaL''" and ?c2.0 = CaN and ?name2.0 = "''CaN''"]
  have k1: "''Na_h'' \<in> keys (channel_states Na ''Na'')"
    by (simp add: keys_def Na_channel_states_def)
  have k2: "''Phototransduction_S_max'' \<in> keys (channel_params Phototransduction ''Phototransduction'')"
    by (simp add: keys_def Phototransduction_channel_params_def)
  have a: "prefix ''Na_'' ''Na_h''"
    using T k1 by fastforce
  have b: "prefix ''Phototransduction_'' ''Phototransduction_S_max''"
    using U k2 by fastforce
  have c: "keys (channel_states Na ''Na'') \<inter> keys (channel_states CaN ''CaN'') = {}"
    using T by simp
  have d: "keys (channel_params CaL ''CaL'') \<inter> keys (channel_params CaN ''CaN'')
             \<subseteq> {''vK'', ''vCa''}"
    using U by simp
  from a b c d show ?thesis by blast
qed

section \<open>The voltage-dependent rates\<close>

text \<open>
  In the real arithmetic of the model each rate function returns, away from the zero of
  its denominator, the pair its formulas give; the denominators \<open>1 + exp (\<dots>)\<close> of the
  inactivation gates never vanish. The floating-point program agrees with this where its
  exponentials neither overflow nor round to \<open>1\<close>; the theorems on the rates and on the
  gates below keep to such voltages.
\<close>

lemma Na_m_gate_eq:
  assumes "V \<noteq> - 29"
  shows "Na_m_gate V = Inr (0.5 * (V + 29) / (1 - exp (- 0.18 * (V + 29))),
                            6.0 * exp (- (V + 45.0) / 15.0))"
proof -
  have d: "1 - exp (- 0.18 * (V + 29)) \<noteq> 0" using assms by simp
  show ?thesis
    unfolding Na_m_gate_def fdiv_def using d by (simp only: if_False bindE_Inr Let_def)
qed

lemma Na_h_gate_eq:
  "Na_h_gate V = Inr (0.15 * exp (- (V + 47.0) / 20.0), 2.8 / (1 + exp (- 0.1 * (V + 20.0))))"
proof -
  have "0 < 1 + exp (- 0.1 * (V + 20.0))" by (simp add: add_pos_pos)
  then have d: "1 + exp (- 0.1 * (V + 20.0)) \<noteq> 0" by simp
  show ?thesis
    unfolding Na_h_gate_def fdiv_def using d by (simp only: if_False bindE_Inr Let_def)
qed

lemma Kdr_m_gate_eq:
  assumes "V \<noteq> 0"
  shows "Kdr_m_gate V = Inr (0.0065 * (V + 30) / (1 - exp (- 0.3 * V)),
                             0.083 * exp ((V + 15) / 15))"
proof -
  have d: "1 - exp (- 0.3 * V) \<noteq> 0" using assms by simp
  show ?thesis
    unfolding Kdr_m_gate_def fdiv_def using d by (simp only: if_False bindE_Inr Let_def)
qed

lemma CaL_m_gate_eq:
  assumes "V \<noteq> 3"
  shows "CaL_m_gate V = Inr (0.061 * (V - 3.0) / (1 - exp (- (V - 3.0) / 12.5)),
                             0.058 * exp (- (V - 10.0) / 15.0))"
proof -
  have d: "1 - exp (- (V - 3.0) / 12.5) \<noteq> 0" using assms by simp
  show ?thesis
    unfolding CaL_m_gate_def fdiv_def using d by (simp only: if_False bindE_Inr Let_def)
qed

lemma CaN_m_gate_eq:
  assumes "V \<noteq> 20"
  shows "CaN_m_gate V = Inr (0.1 * (V - 20) / (1 - exp (- 0.1 * (V - 20))),
                             0.4 * exp (- (V + 25.0) / 18.0))"
proof -
  have d: "1 - exp (- 0.1 * (V - 20)) \<noteq> 0" using assms by simp
  show ?thesis
    unfolding CaN_m_gate_def fdiv_def using d by (simp only: if_False bindE_Inr Let_def)
qed

lemma CaN_h_gate_eq:
  "CaN_h_gate V = Inr (0.01 * exp (- (V + 50.0) / 10.0), 0.1 / (1 + exp (- (V + 17.0) / 17)))"
proof -
  have "0 < 1 + exp (- (V + 17.0) / 17)" by (simp add: add_pos_pos)
  then have d: "1 + exp (- (V + 17.0) / 17) \<noteq> 0" by simp
  show ?thesis
    unfolding CaN_h_gate_def fdiv_def using d by (simp only: if_False bindE_Inr Let_def)
qed

text \<open>
  A quotient \<open>x / (1 - exp t)\<close> whose exponent \<open>t\<close> has the sign opposite to \<open>x\<close> is
  positive: this is the shape of the activation rates of Na, CaL and CaN at every
  voltage but the singular one, and of Kdr outside \<open>[-30, 0]\<close>.
\<close>

lemma ratio_pos:
  fixes x t :: real
  assumes "0 < x \<Longrightarrow> t < 0" and "x < 0 \<Longrightarrow> 0 < t" and "x \<noteq> 0"
  shows "0 < x / (1 - exp t)"
proof (cases "0 < x")
  case True
  then have "exp t < 1" using assms(1) by simp
  with True show ?thesis by simp
next
  case False
  with assms(3) have neg: "x < 0" by simp
  then have "1 < exp t" using assms(2) by simp
  with neg show ?thesis by (simp add: divide_neg_neg)
qed

lemma Na_m_gate_finite:
  assumes "V \<noteq> - 29"
  shows "\<exists>a b. Na_m_gate V = Inr (a, b) \<and> 0 < a \<and> 0 < b"
proof -
  have "0 < 0.5 * (V + 29) / (1 - exp (- 0.18 * (V + 29)))"
    using assms by (intro ratio_pos) auto
  moreover have "0 < 6.0 * exp (- (V + 45.0) / 15.0)"
    by simp
  ultimately show ?thesis
    using Na_m_gate_eq [OF assms] by blast
qed

lemma Na_h_gate_finite: "\<exists>a b. Na_h_gate V = Inr (a, b) \<and> 0 < a \<and> 0 < b"
proof -
  have "0 < 1 + exp (- 0.1 * (V + 20.0))"
    by (simp add: add_pos_pos)
  then have "0 < 2.8 / (1 + exp (- 0.1 * (V + 20.0)))"
    by simp
  moreover have "0 < 0.15 * exp (- (V + 47.0) / 20.0)"
    by simp
  ultimately show ?thesis
    using Na_h_gate_eq [of V] by blast
qed

lemma Kdr_m_gate_finite:
  assumes "V < - 30 \<or> 0 < V"
  shows "\<exists>a b. Kdr_m_gate V = Inr (a, b) \<and> 0 < a \<and> 0 < b"
proof -
  have "V \<noteq> 0"
    using assms by auto
  moreover have "0 < 0.0065 * (V + 30) / (1 - exp (- 0.3 * V))"
    using assms by (intro ratio_pos) auto
  moreover have "0 < 0.083 * exp ((V + 15) / 15)"
    by simp
  ultimately show ?thesis
    using Kdr_m_gate_eq [of V] by blast
qed

lemma Kdr_m_gate_nonneg:
  assumes "V \<le> - 30 \<or> 0 < V"
  shows "\<exists>a b. Kdr_m_gate V = Inr (a, b) \<and> 0 \<le> a \<and> 0 < b"
proof (cases "V = - 30")
  case True
  have "0 \<le> 0.0065 * (- 30 + 30) / (1 - exp (- 0.3 * (- 30 :: real)))"
    by simp
  moreover have "0 < 0.083 * exp ((- 30 + 15) / (15 :: real))"
    by simp
  moreover have "Kdr_m_gate (- 30) = Inr (0.0065 * (- 30 + 30) / (1 - exp (- 0.3 * (- 30))),
      0.083 * exp ((- 30 + 15) / 15))"
    by (rule Kdr_m_gate_eq) simp
  ultimately show ?thesis
    using True by blast
next
  case False
  with assms have "V < - 30 \<or> 0 < V" by linarith
  from Kdr_m_gate_finite [OF this] show ?thesis
    by (meson less_imp_le)
qed

lemma CaL_m_gate_finite:
  assumes "V \<noteq> 3"
  shows "\<exists>a b. CaL_m_gate V = Inr (a, b) \<and> 0 < a \<and> 0 < b"
proof -
  have "0 < 0.061 * (V - 3.0) / (1 - exp (- (V - 3.0) / 12.5))"
    using assms by (intro ratio_pos) auto
  moreover have "0 < 0.058 * exp (- (V - 10.0) / 15.0)"
    by simp
  ultimately show ?thesis
    using CaL_m_gate_eq [OF assms] by blast
qed

lemma CaN_m_gate_finite:
  assumes "V \<noteq> 20"
  shows "\<exists>a b. CaN_m_gate V = Inr (a, b) \<and> 0 < a \<and> 0 < b"
proof -
  have "0 < 0.1 * (V - 20) / (1 - exp (- 0.1 * (V - 20)))"
    using assms by (intro ratio_pos) auto
  moreover have "0 < 0.4 * exp (- (V + 25.0) / 18.0)"
    by simp
  ultimately show ?thesis
    using CaN_m_gate_eq [OF assms] by blast
qed

lemma CaN_h_gate_finite: "\<exists>a b. CaN_h_gate V = Inr (a, b) \<and> 0 < a \<and> 0 < b"
proof -
  have "0 < 1 + exp (- (V + 17.0) / 17)"
    by (simp add: add_pos_pos)
  then have "0 < 0.1 / (1 + exp (- (V + 17.0) / 17))"
    by simp
  moreover have "0 < 0.01 * exp (- (V + 50.0) / 10.0)"
    by simp
  ultimately show ?thesis
    using CaN_h_gate_eq [of V] by blast
qed

section \<open>Rate functions at their singular voltages\<close>

text \<open>
  C3 (as the specification states it, refuted): each \<open>m_gate\<close> divides by
  \<open>1 - exp (\<dots>)\<close> without a guard or a limit form, so at the voltage where the exponent
  vanishes (\<open>-29\<close> for Na, \<open>0\<close> for Kdr, \<open>3\<close> for CaL and \<open>20\<close> for CaN) the activation
  rate is the result of a division by zero and not a finite number.
\<close>

theorem m_gate_singular_voltages:
  "Na_m_gate (- 29) = Inl NonFinite \<and> Kdr_m_gate 0 = Inl NonFinite
   \<and> CaL_m_gate 3 = Inl NonFinite \<and> CaN_m_gate 20 = Inl NonFinite"
  by (simp add: Na_m_gate_def Kdr_m_gate_def CaL_m_gate_def CaN_m_gate_def fdiv_def)

text \<open>
  C3 (amended): the rate formulas use raw division, with no limit form and no safe
  exponential helper. For every voltage \<open>V\<close> between \<open>-200\<close> and \<open>200\<close> that lies at
  least \<open>0.001\<close> from the zero of the activation-rate denominator (\<open>-29\<close> for
  \<open>Na.m_gate\<close>, \<open>0\<close> for \<open>Kdr.m_gate\<close>, \<open>3\<close> for \<open>CaL.m_gate\<close>, \<open>20\<close> for
  \<open>CaN.m_gate\<close>), and for every voltage between \<open>-200\<close> and \<open>200\<close> in the case of
  \<open>Na.h_gate\<close> and \<open>CaN.h_gate\<close>, the rate functions return the finite values of their
  formulas. At \<open>V = -29\<close>, \<open>0\<close>, \<open>3\<close> and \<open>20\<close> the activation rate is the result of a
  division by zero and is not finite.
\<close>

theorem rates_finite_in_range:
  "(- 200 \<le> V \<and> V \<le> 200 \<and> 0.001 \<le> \<bar>V + 29\<bar> \<longrightarrow>
      Na_m_gate V = Inr (0.5 * (V + 29) / (1 - exp (- 0.18 * (V + 29))),
                         6.0 * exp (- (V + 45.0) / 15.0)))
   \<and> (- 200 \<le> V \<and> V \<le> 200 \<longrightarrow>
      Na_h_gate V = Inr (0.15 * exp (- (V + 47.0) / 20.0),
                         2.8 / (1 + exp (- 0.1 * (V + 20.0)))))
   \<and> (- 200 \<le> V \<and> V \<le> 200 \<and> 0.001 \<le> \<bar>V\<bar> \<longrightarrow>
      Kdr_m_gate V = Inr (0.0065 * (V + 30) / (1 - exp (- 0.3 * V)),
                          0.083 * exp ((V + 15) / 15)))
   \<and> (- 200 \<le> V \<and> V \<le> 200 \<and> 0.001 \<le> \<bar>V - 3\<bar> \<longrightarrow>
      CaL_m_gate V = Inr (0.061 * (V - 3.0) / (1 - exp (- (V - 3.0) / 12.5)),
                          0.058 * exp (- (V - 10.0) / 15.0)))
   \<and> (- 200 \<le> V \<and> V \<le> 200 \<and> 0.001 \<le> \<bar>V - 20\<bar> \<longrightarrow>
      CaN_m_gate V = Inr (0.1 * (V - 20) / (1 - exp (- 0.1 * (V - 20))),
                          0.4 * exp (- (V + 25.0) / 18.0)))
   \<and> (- 200 \<le> V \<and> V \<le> 200 \<longrightarrow>
      CaN_h_gate V = Inr (0.01 * exp (- (V + 50.0) / 10.0),
                          0.1 / (1 + exp (- (V + 17.0) / 17))))
   \<and> Na_m_gate (- 29) = Inl NonFinite \<and> Kdr_m_gate 0 = Inl NonFinite
   \<and> CaL_m_gate 3 = Inl NonFinite \<and> CaN_m_gate 20 = Inl NonFinite"
proof -
  have sing: "Na_m_gate (- 29) = Inl NonFinite \<and> Kdr_m_gate 0 = Inl NonFinite
      \<and> CaL_m_gate 3 = Inl NonFinite \<and> CaN_m_gate 20 = Inl NonFinite"
    by (simp add: Na_m_gate_def Kdr_m_gate_def CaL_m_gate_def CaN_m_gate_def fdiv_def)
  have na: "0.001 \<le> \<bar>V + 29\<bar> \<Longrightarrow> V \<noteq> - 29"
    by auto
  have kdr: "0.001 \<le> \<bar>V\<bar> \<Longrightarrow> V \<noteq> 0"
    by auto
  have cal: "0.001 \<le> \<bar>V - 3\<bar> \<Longrightarrow> V \<noteq> 3"
    by auto
  have can: "0.001 \<le> \<bar>V - 20\<bar> \<Longrightarrow> V \<noteq> 20"
    by auto
  from sing show ?thesis
    using Na_m_gate_eq [OF na] Na_h_gate_eq [of V] Kdr_m_gate_eq [OF kdr]
      CaL_m_gate_eq [OF cal] CaN_m_gate_eq [OF can] CaN_h_gate_eq [of V]
    by blast
qed

theorem rates_finite_in_range_witness:
  "Na_m_gate (- 65) = Inr (0.5 * (- 65 + 29) / (1 - exp (- 0.18 * (- 65 + 29))),
                           6.0 * exp (- (- 65 + 45.0) / 15.0))
   \<and> Na_h_gate (- 65) = Inr (0.15 * exp (- (- 65 + 47.0) / 20.0),
                             2.8 / (1 + exp (- 0.1 * (- 65 + 20.0))))
   \<and> Kdr_m_gate (- 65) = Inr (0.0065 * (- 65 + 30) / (1 - exp (- 0.3 * (- 65))),
                              0.083 * exp ((- 65 + 15) / 15))
   \<and> CaL_m_gate (- 65) = Inr (0.061 * (- 65 - 3.0) / (1 - exp (- (- 65 - 3.0) / 12.5)),
                              0.058 * exp (- (- 65 - 10.0) / 15.0))
   \<and> CaN_m_gate (- 65) = Inr (0.1 * (- 65 - 20) / (1 - exp (- 0.1 * (- 65 - 20))),
                              0.4 * exp (- (- 65 + 25.0) / 18.0))
   \<and> CaN_h_gate (- 65) = Inr (0.01 * exp (- (- 65 + 50.0) / 10.0),
                              0.1 / (1 + exp (- (- 65 + 17.0) / 17)))"
proof -
  note T = rates_finite_in_range [of "- 65"]
  have r: "- 200 \<le> (- 65 :: real) \<and> (- 65 :: real) \<le> 200"
    by simp
  have a: "0.001 \<le> \<bar>(- 65 :: real) + 29\<bar>" "0.001 \<le> \<bar>- 65 :: real\<bar>"
    "0.001 \<le> \<bar>(- 65 :: real) - 3\<bar>" "0.001 \<le> \<bar>(- 65 :: real) - 20\<bar>"
    by simp_all
  from T r a show ?thesis by blast
qed

section \<open>One step of the gate solver\<close>


lemma solve_gate_exponential_unit_interval:
  assumes "0 \<le> a" and "0 \<le> b" and "0 < a + b" and "0 \<le> dt" and "0 \<le> x" and "x \<le> 1"
  shows "\<exists>y. solve_gate_exponential x dt a b = Inr y \<and> 0 \<le> y \<and> y \<le> 1"
proof -
  define xi where "xi = a / (a + b)"
  define E where "E = exp (- dt * (a + b))"
  have xi: "0 \<le> xi" "xi \<le> 1"
    using assms by (simp_all add: xi_def)
  have "0 \<le> dt * (a + b)"
    using assms by simp
  then have E: "0 < E" "E \<le> 1"
    by (simp_all add: E_def)
  then have E': "0 \<le> 1 - E" by simp
  have eq: "xi + (x - xi) * E = x * E + xi * (1 - E)"
    by (simp add: algebra_simps)
  have lo: "0 \<le> x * E + xi * (1 - E)"
    using assms xi E by simp
  have "x * E \<le> 1 * E"
    using assms E by (intro mult_right_mono) simp_all
  moreover have "xi * (1 - E) \<le> 1 * (1 - E)"
    using xi E' by (intro mult_right_mono) simp_all
  ultimately have hi: "x * E + xi * (1 - E) \<le> 1"
    by simp
  have "solve_gate_exponential x dt a b = Inr (xi + (x - xi) * E)"
    using assms by (simp add: solve_gate_exponential_def fdiv_def xi_def E_def)
  with eq lo hi show ?thesis by simp
qed


section \<open>The steady state of the gates\<close>





section \<open>Gates in the unit interval\<close>

lemma Na_update_states_unit_interval:
  assumes "V \<noteq> - 29" and "0 \<le> dt"
    and "u (name @ ''_m'') = Some m" and "0 \<le> m" and "m \<le> 1"
    and "u (name @ ''_h'') = Some h" and "0 \<le> h" and "h \<le> 1"
  shows "\<exists>m' h'. Na_update_states name u dt V params
            = Inr [name @ ''_m'' \<mapsto> m', name @ ''_h'' \<mapsto> h']
          \<and> 0 \<le> m' \<and> m' \<le> 1 \<and> 0 \<le> h' \<and> h' \<le> 1"
proof -
  obtain am bm where m: "Na_m_gate V = Inr (am, bm)" "0 < am" "0 < bm"
    using Na_m_gate_finite [OF assms(1)] by blast
  obtain ah bh where h: "Na_h_gate V = Inr (ah, bh)" "0 < ah" "0 < bh"
    using Na_h_gate_finite by blast
  obtain m' where m': "solve_gate_exponential m dt am bm = Inr m'" "0 \<le> m'" "m' \<le> 1"
    using solve_gate_exponential_unit_interval [of am bm dt m] m assms by auto
  obtain h' where h': "solve_gate_exponential h dt ah bh = Inr h'" "0 \<le> h'" "h' \<le> 1"
    using solve_gate_exponential_unit_interval [of ah bh dt h] h assms by auto
  have "Na_update_states name u dt V params = Inr [name @ ''_m'' \<mapsto> m', name @ ''_h'' \<mapsto> h']"
    using assms m h m' h' by (simp add: Na_update_states_def lookup_def)
  with m' h' show ?thesis by blast
qed

lemma CaL_update_states_unit_interval:
  assumes "V \<noteq> 3" and "0 \<le> dt"
    and "u (name @ ''_m'') = Some m" and "0 \<le> m" and "m \<le> 1"
  shows "\<exists>m'. CaL_update_states name u dt V params = Inr [name @ ''_m'' \<mapsto> m']
          \<and> 0 \<le> m' \<and> m' \<le> 1"
proof -
  obtain am bm where m: "CaL_m_gate V = Inr (am, bm)" "0 < am" "0 < bm"
    using CaL_m_gate_finite [OF assms(1)] by blast
  obtain m' where m': "solve_gate_exponential m dt am bm = Inr m'" "0 \<le> m'" "m' \<le> 1"
    using solve_gate_exponential_unit_interval [of am bm dt m] m assms by auto
  have "CaL_update_states name u dt V params = Inr [name @ ''_m'' \<mapsto> m']"
    using assms m m' by (simp add: CaL_update_states_def lookup_def)
  with m' show ?thesis by blast
qed

lemma CaN_update_states_unit_interval:
  assumes "V \<noteq> 20" and "0 \<le> dt"
    and "u (name @ ''_m'') = Some m" and "0 \<le> m" and "m \<le> 1"
    and "u (name @ ''_h'') = Some h" and "0 \<le> h" and "h \<le> 1"
  shows "\<exists>m' h'. CaN_update_states name u dt V params
            = Inr [name @ ''_m'' \<mapsto> m', name @ ''_h'' \<mapsto> h']
          \<and> 0 \<le> m' \<and> m' \<le> 1 \<and> 0 \<le> h' \<and> h' \<le> 1"
proof -
  obtain am bm where m: "CaN_m_gate V = Inr (am, bm)" "0 < am" "0 < bm"
    using CaN_m_gate_finite [OF assms(1)] by blast
  obtain ah bh where h: "CaN_h_gate V = Inr (ah, bh)" "0 < ah" "0 < bh"
    using CaN_h_gate_finite by blast
  obtain m' where m': "solve_gate_exponential m dt am bm = Inr m'" "0 \<le> m'" "m' \<le> 1"
    using solve_gate_exponential_unit_interval [of am bm dt m] m assms by auto
  obtain h' where h': "solve_gate_exponential h dt ah bh = Inr h'" "0 \<le> h'" "h' \<le> 1"
    using solve_gate_exponential_unit_interval [of ah bh dt h] h assms by auto
  have "CaN_update_states name u dt V params = Inr [name @ ''_m'' \<mapsto> m', name @ ''_h'' \<mapsto> h']"
    using assms m h m' h' by (simp add: CaN_update_states_def lookup_def)
  with m' h' show ?thesis by blast
qed

lemma Kdr_update_states_unit_interval:
  assumes "V \<le> - 30 \<or> 0 < V" and "0 \<le> dt"
    and "u (name @ ''_m'') = Some m" and "0 \<le> m" and "m \<le> 1"
  shows "\<exists>m'. Kdr_update_states name u dt V params = Inr [name @ ''_m'' \<mapsto> m']
          \<and> 0 \<le> m' \<and> m' \<le> 1"
proof -
  obtain am bm where m: "Kdr_m_gate V = Inr (am, bm)" "0 \<le> am" "0 < bm"
    using Kdr_m_gate_nonneg [OF assms(1)] by blast
  obtain m' where m': "solve_gate_exponential m dt am bm = Inr m'" "0 \<le> m'" "m' \<le> 1"
    using solve_gate_exponential_unit_interval [of am bm dt m] m assms by auto
  have "Kdr_update_states name u dt V params = Inr [name @ ''_m'' \<mapsto> m']"
    using assms m m' by (simp add: Kdr_update_states_def lookup_def)
  with m' show ?thesis by blast
qed

text \<open>
  C9 (as the specification states it, refuted), at two inputs with gates in \<open>[0, 1]\<close> and
  \<open>dt = 1\<close>: for Na at \<open>V = -29\<close> the returned \<open>m\<close> is not finite; for Kdr at
  \<open>V = -15\<close> the activation rate \<open>0.0065 * 15 / (1 - exp 4.5)\<close> is negative and the gate
  \<open>m = 0\<close> is taken to a negative value.
\<close>

theorem gates_leave_unit_interval:
  "Na_update_states ''Na'' (map_of (Na_channel_states ''Na'')) 1 (- 29)
      (map_of (Na_channel_params ''Na'')) = Inl NonFinite
   \<and> (let a = 0.0065 * (- 15 + 30) / (1 - exp (- 0.3 * (- 15)));
           b = 0.083 * exp ((- 15 + 15) / 15);
           x_inf = a / (a + b);
           m' = x_inf + (0 - x_inf) * exp (- 1 * (a + b))
       in Kdr_update_states ''Kdr'' [''Kdr_m'' \<mapsto> 0] 1 (- 15)
            (map_of (Kdr_channel_params ''Kdr'')) = Inr [''Kdr_m'' \<mapsto> m']
          \<and> m' < 0)"
proof -
  have na: "Na_update_states ''Na'' (map_of (Na_channel_states ''Na'')) 1 (- 29)
      (map_of (Na_channel_params ''Na'')) = Inl NonFinite"
    by (simp add: Na_update_states_def Na_channel_states_def Na_m_gate_def lookup_def fdiv_def)
  define a :: real where "a = 0.0065 * (- 15 + 30) / (1 - exp (- 0.3 * (- 15)))"
  define b :: real where "b = 0.083 * exp ((- 15 + 15) / 15)"
  have d: "1 - exp (- 0.3 * (- 15 :: real)) \<noteq> 0"
    by simp
  have gate: "Kdr_m_gate (- 15) = Inr (a, b)"
    unfolding Kdr_m_gate_def fdiv_def a_def b_def
    using d by (simp only: if_False bindE_Inr Let_def)
  have e: "11 / 2 \<le> exp (9 / 2 :: real)"
    using exp_ge_add_one_self [of "9 / 2 :: real"] by simp
  have a_eq: "a = - (39 / 400) / (exp (9 / 2) - 1)"
    by (simp add: a_def field_simps)
  have b_eq: "b = 83 / 1000"
    by (simp add: b_def)
  have pos: "0 < exp (9 / 2 :: real) - 1"
    using e by simp
  have a_neg: "a < 0"
    unfolding a_eq using pos by simp
  have "(39 / 400) / (exp (9 / 2 :: real) - 1) \<le> (39 / 400) / (9 / 2)"
    using e by (intro divide_left_mono) simp_all
  then have ab: "0 < a + b"
    unfolding a_eq b_eq by simp
  define xi where "xi = a / (a + b)"
  define E where "E = exp (- 1 * (a + b))"
  have xi: "xi < 0"
    unfolding xi_def using a_neg ab by (simp add: divide_neg_pos)
  have E: "E < 1"
    unfolding E_def using ab by simp
  have res: "solve_gate_exponential 0 1 a b = Inr (xi + (0 - xi) * E)"
    using ab by (simp add: solve_gate_exponential_def fdiv_def xi_def E_def)
  have "xi + (0 - xi) * E = xi * (1 - E)"
    by (simp add: algebra_simps)
  moreover have "xi * (1 - E) < 0"
    using xi E by (simp add: mult_neg_pos)
  ultimately have neg: "xi + (0 - xi) * E < 0"
    by simp
  have "Kdr_update_states ''Kdr'' [''Kdr_m'' \<mapsto> 0] 1 (- 15)
      (map_of (Kdr_channel_params ''Kdr'')) = Inr [''Kdr_m'' \<mapsto> xi + (0 - xi) * E]"
    using gate res by (simp add: Kdr_update_states_def lookup_def)
  with neg have "Kdr_update_states ''Kdr'' [''Kdr_m'' \<mapsto> 0] 1 (- 15)
      (map_of (Kdr_channel_params ''Kdr'')) = Inr [''Kdr_m'' \<mapsto> xi + (0 - xi) * E]
      \<and> xi + (0 - xi) * E < 0"
    by simp
  then have kdr: "let a = 0.0065 * (- 15 + 30) / (1 - exp (- 0.3 * (- 15)));
           b = 0.083 * exp ((- 15 + 15) / 15);
           x_inf = a / (a + b);
           m' = x_inf + (0 - x_inf) * exp (- 1 * (a + b))
       in Kdr_update_states ''Kdr'' [''Kdr_m'' \<mapsto> 0] 1 (- 15)
            (map_of (Kdr_channel_params ''Kdr'')) = Inr [''Kdr_m'' \<mapsto> m']
          \<and> m' < 0"
    unfolding Let_def xi_def E_def a_def b_def .
  from na kdr show ?thesis by (intro conjI)
qed

text \<open>
  C9 (amended): gate values in \<open>[0, 1]\<close> stay in \<open>[0, 1]\<close> under \<open>update_states\<close> for
  every \<open>dt \<ge> 0\<close> and every voltage \<open>V\<close> between \<open>-200\<close> and \<open>200\<close> that lies at least
  \<open>0.001\<close> from the zero of the activation-rate denominator: for Na with
  \<open>\<bar>V + 29\<bar> \<ge> 0.001\<close>, for CaL with \<open>\<bar>V - 3\<bar> \<ge> 0.001\<close>, for CaN with
  \<open>\<bar>V - 20\<bar> \<ge> 0.001\<close>, and for Kdr with \<open>V \<le> -30\<close> or \<open>V \<ge> 0.001\<close>.
\<close>

theorem gates_stay_in_unit_interval_in_range:
  "(- 200 \<le> V \<and> V \<le> 200 \<and> 0.001 \<le> \<bar>V + 29\<bar> \<and> 0 \<le> dt
      \<and> u (name @ ''_m'') = Some m \<and> 0 \<le> m \<and> m \<le> 1
      \<and> u (name @ ''_h'') = Some h \<and> 0 \<le> h \<and> h \<le> 1 \<longrightarrow>
      (\<exists>m' h'. Na_update_states name u dt V params
                 = Inr [name @ ''_m'' \<mapsto> m', name @ ''_h'' \<mapsto> h']
               \<and> 0 \<le> m' \<and> m' \<le> 1 \<and> 0 \<le> h' \<and> h' \<le> 1))
   \<and> (- 200 \<le> V \<and> V \<le> 200 \<and> (V \<le> - 30 \<or> 0.001 \<le> V) \<and> 0 \<le> dt
      \<and> u (name @ ''_m'') = Some m \<and> 0 \<le> m \<and> m \<le> 1 \<longrightarrow>
      (\<exists>m'. Kdr_update_states name u dt V params = Inr [name @ ''_m'' \<mapsto> m']
               \<and> 0 \<le> m' \<and> m' \<le> 1))
   \<and> (- 200 \<le> V \<and> V \<le> 200 \<and> 0.001 \<le> \<bar>V - 3\<bar> \<and> 0 \<le> dt
      \<and> u (name @ ''_m'') = Some m \<and> 0 \<le> m \<and> m \<le> 1 \<longrightarrow>
      (\<exists>m'. CaL_update_states name u dt V params = Inr [name @ ''_m'' \<mapsto> m']
               \<and> 0 \<le> m' \<and> m' \<le> 1))
   \<and> (- 200 \<le> V \<and> V \<le> 200 \<and> 0.001 \<le> \<bar>V - 20\<bar> \<and> 0 \<le> dt
      \<and> u (name @ ''_m'') = Some m \<and> 0 \<le> m \<and> m \<le> 1
      \<and> u (name @ ''_h'') = Some h \<and> 0 \<le> h \<and> h \<le> 1 \<longrightarrow>
      (\<exists>m' h'. CaN_update_states name u dt V params
                 = Inr [name @ ''_m'' \<mapsto> m', name @ ''_h'' \<mapsto> h']
               \<and> 0 \<le> m' \<and> m' \<le> 1 \<and> 0 \<le> h' \<and> h' \<le> 1))"
proof -
  have na: "0.001 \<le> \<bar>V + 29\<bar> \<Longrightarrow> V \<noteq> - 29"
    by auto
  have kdr: "V \<le> - 30 \<or> 0.001 \<le> V \<Longrightarrow> V \<le> - 30 \<or> 0 < V"
    by auto
  have cal: "0.001 \<le> \<bar>V - 3\<bar> \<Longrightarrow> V \<noteq> 3"
    by auto
  have can: "0.001 \<le> \<bar>V - 20\<bar> \<Longrightarrow> V \<noteq> 20"
    by auto
  show ?thesis
    using Na_update_states_unit_interval [OF na, of dt u name m h params]
      Kdr_update_states_unit_interval [OF kdr, of dt u name m params]
      CaL_update_states_unit_interval [OF cal, of dt u name m params]
      CaN_update_states_unit_interval [OF can, of dt u name m h params]
    by blast
qed

theorem gates_stay_in_unit_interval_in_range_witness:
  "(\<exists>m' h'. Na_update_states ''Na'' (map_of (Na_channel_states ''Na'')) 1 (- 65)
               (map_of (Na_channel_params ''Na'')) = Inr [''Na_m'' \<mapsto> m', ''Na_h'' \<mapsto> h']
             \<and> 0 \<le> m' \<and> m' \<le> 1 \<and> 0 \<le> h' \<and> h' \<le> 1)
   \<and> (\<exists>m'. Kdr_update_states ''Kdr'' (map_of (Kdr_channel_states ''Kdr'')) 1 (- 65)
               (map_of (Kdr_channel_params ''Kdr'')) = Inr [''Kdr_m'' \<mapsto> m']
             \<and> 0 \<le> m' \<and> m' \<le> 1)
   \<and> (\<exists>m'. CaL_update_states ''CaL'' (map_of (CaL_channel_states ''CaL'')) 1 (- 65)
               (map_of (CaL_channel_params ''CaL'')) = Inr [''CaL_m'' \<mapsto> m']
             \<and> 0 \<le> m' \<and> m' \<le> 1)
   \<and> (\<exists>m' h'. CaN_update_states ''CaN'' (map_of (CaN_channel_states ''CaN'')) 1 (- 65)
               (map_of (CaN_channel_params ''CaN'')) = Inr [''CaN_m'' \<mapsto> m', ''CaN_h'' \<mapsto> h']
             \<and> 0 \<le> m' \<and> m' \<le> 1 \<and> 0 \<le> h' \<and> h' \<le> 1)"
proof -
  have na: "\<exists>m' h'. Na_update_states ''Na'' (map_of (Na_channel_states ''Na'')) 1 (- 65)
               (map_of (Na_channel_params ''Na'')) = Inr [''Na_m'' \<mapsto> m', ''Na_h'' \<mapsto> h']
             \<and> 0 \<le> m' \<and> m' \<le> 1 \<and> 0 \<le> h' \<and> h' \<le> 1"
    using gates_stay_in_unit_interval_in_range
      [where V = "- 65" and dt = 1 and u = "map_of (Na_channel_states ''Na'')"
         and name = "''Na''" and m = "0.2" and h = "0.2"
         and params = "map_of (Na_channel_params ''Na'')"]
    by (simp add: Na_channel_states_def)
  have kdr: "\<exists>m'. Kdr_update_states ''Kdr'' (map_of (Kdr_channel_states ''Kdr'')) 1 (- 65)
               (map_of (Kdr_channel_params ''Kdr'')) = Inr [''Kdr_m'' \<mapsto> m']
             \<and> 0 \<le> m' \<and> m' \<le> 1"
    using gates_stay_in_unit_interval_in_range
      [where V = "- 65" and dt = 1 and u = "map_of (Kdr_channel_states ''Kdr'')"
         and name = "''Kdr''" and m = "0.1"
         and params = "map_of (Kdr_channel_params ''Kdr'')"]
    by (simp add: Kdr_channel_states_def)
  have cal: "\<exists>m'. CaL_update_states ''CaL'' (map_of (CaL_channel_states ''CaL'')) 1 (- 65)
               (map_of (CaL_channel_params ''CaL'')) = Inr [''CaL_m'' \<mapsto> m']
             \<and> 0 \<le> m' \<and> m' \<le> 1"
    using gates_stay_in_unit_interval_in_range
      [where V = "- 65" and dt = 1 and u = "map_of (CaL_channel_states ''CaL'')"
         and name = "''CaL''" and m = "0.1"
         and params = "map_of (CaL_channel_params ''CaL'')"]
    by (simp add: CaL_channel_states_def)
  have can: "\<exists>m' h'. CaN_update_states ''CaN'' (map_of (CaN_channel_states ''CaN'')) 1 (- 65)
               (map_of (CaN_channel_params ''CaN'')) = Inr [''CaN_m'' \<mapsto> m', ''CaN_h'' \<mapsto> h']
             \<and> 0 \<le> m' \<and> m' \<le> 1 \<and> 0 \<le> h' \<and> h' \<le> 1"
    using gates_stay_in_unit_interval_in_range
      [where V = "- 65" and dt = 1 and u = "map_of (CaN_channel_states ''CaN'')"
         and name = "''CaN''" and m = "0.2" and h = "0.2"
         and params = "map_of (CaN_channel_params ''CaN'')"]
    by (simp add: CaN_channel_states_def)
  from na kdr cal can show ?thesis by (intro conjI)
qed

end
